theory Spec2Isabelle
  imports Complex_Main
begin

section \<open>Data model (prisma/schema.prisma, interfaces/executer.interfaces.ts)\<close>

text \<open>
  The enums of the schema are datatypes. \<open>JobStatus\<close> and \<open>AgentWorkStatus\<close> share the
  names COMPLETED and CANCELLED in the source; the job-side constructors carry a
  \<open>JOB_\<close> prefix here.

  Conventions used for every table and interface below:
  \<^item> \<open>String\<close> is \<open>string\<close>, \<open>Int\<close> is \<open>int\<close>, \<open>DateTime\<close> is \<open>int\<close> (the milliseconds
    that \<open>getTime()\<close> returns), \<open>Float\<close> and the JavaScript numbers computed from them are
    \<open>real\<close> (exact arithmetic; rounding of IEEE doubles is not modelled), a nullable
    column or optional field \<open>T?\<close> is \<open>T option\<close>. That an \<open>Int\<close> column holds 32 bits and
    a text column no character U+0000 is checked where the tracker writes them
    (\<open>int32\<close>, \<open>pgText\<close> below).
  \<^item> Field names are the source's, with a short prefix where two tables share a name
    (\<open>id\<close>, \<open>tags\<close>, \<open>agentId\<close>, ...).
  \<^item> Columns that no modelled function reads or writes (descriptions, wallet addresses,
    the generated row ids of the join, log and performance tables) and the timestamps
    the store maintains by itself (\<open>createdAt\<close>, \<open>updatedAt\<close>, \<open>lastUpdated\<close>) are left out.
\<close>

datatype JobStatus = OPEN | DISTRIBUTED | IN_PROGRESS | JOB_COMPLETED | JOB_CANCELLED | EXPIRED

datatype AgentWorkStatus = IDLE | ASSIGNED | WORKING | COMPLETED | FAILED | CANCELLED | TIMEOUT

record Job =
  job_id :: string
  jobTitle :: string
  category :: string
  skillLevel :: string
  job_tags :: "string list"
  maxBudget :: "real option"
  status :: JobStatus

record Agent =
  agent_id :: string
  agentName :: string
  agentAddress :: string
  agentClassification :: string
  agent_tags :: "string list"
  autoAcceptJobs :: bool
  isActive :: bool
  reputation :: real
  successRate :: real
  totalJobsCompleted :: int
  price :: real
  isFree :: bool

record MatchCriteria =
  mc_tags :: "string list"
  mc_category :: string
  mc_skillLevel :: string
  mc_maxBudget :: "real option"
  mc_autoAcceptJobs :: bool
  mc_isActive :: bool

record JobDistributionRecord =
  dr_id :: string
  jobId :: string
  jobName :: string
  matchCriteria :: MatchCriteria
  totalAgents :: int
  assignedCount :: int
  responseCount :: int
  assignedAgentId :: "string option"
  assignedAgentName :: "string option"

record JobDistributionAgent =
  jobDistributionId :: string
  agentId :: string
  assignedAt :: int
  workStatus :: AgentWorkStatus
  executionResult :: "string option"
  startedAt :: "int option"
  completedAt :: "int option"
  progress :: "int option"
  errorMessage :: "string option"
  executionTimeMs :: "int option"
  retryCount :: int

record EventData =
  ev_progress :: "int option"
  ev_errorMessage :: "string option"
  ev_executionTimeMs :: "int option"

record ExecutionLog =
  log_jobId :: string
  log_agentId :: string
  eventType :: AgentWorkStatus
  eventData :: EventData

record AgentPerformance =
  perf_agentId :: string
  totalJobs :: int
  completedJobs :: int
  failedJobs :: int
  avgExecutionTime :: real
  perf_successRate :: real

text \<open>The interfaces \<open>ExecutionStatusUpdate\<close>, \<open>AgentExecutionResult\<close>, \<open>AgentScore\<close>.\<close>

record ExecutionStatusUpdate =
  upd_distributionId :: string
  upd_agentId :: string
  upd_workStatus :: AgentWorkStatus
  upd_progress :: "int option"
  upd_executionResult :: "string option"
  upd_errorMessage :: "string option"
  upd_executionTimeMs :: "int option"

record AgentExecutionResult =
  res_agentId :: string
  res_agentName :: string
  res_distributionId :: string
  res_workStatus :: AgentWorkStatus
  res_executionResult :: "string option"
  res_executionTimeMs :: "int option"
  res_startedAt :: "int option"
  res_completedAt :: "int option"
  res_errorMessage :: "string option"

record Factors =
  f_skillMatch :: real
  f_reputation :: real
  f_successRate :: real
  f_availability :: real

record DistributionDetail =
  dd_id :: string
  dd_jobId :: string
  dd_jobName :: string
  dd_totalAgents :: int
  dd_assignedCount :: int
  dd_responseCount :: int
  dd_assignedAgentId :: "string option"
  dd_assignedAgentName :: "string option"
  agentExecutions :: "AgentExecutionResult list"

record AgentScore =
  sc_agentId :: string
  sc_agentName :: string
  sc_agentAddress :: string
  score :: real
  factors :: Factors

text \<open>
  The data store: one list of rows per table, in insertion order (the order in which a
  query without \<open>orderBy\<close> returns them).
\<close>

record db =
  jobs :: "Job list"
  agents :: "Agent list"
  jobDistributionRecords :: "JobDistributionRecord list"
  jobDistributionAgents :: "JobDistributionAgent list"
  executionLogs :: "ExecutionLog list"
  agentPerformances :: "AgentPerformance list"

section \<open>Agent scorer (agent-matcher.service.ts)\<close>

text \<open>
  \<open>String.prototype.toLowerCase\<close> on the ASCII letters; every other character is kept.
\<close>

definition lowerChar :: "char \<Rightarrow> char" where
  "lowerChar c =
     (case map_of (zip ''ABCDEFGHIJKLMNOPQRSTUVWXYZ'' ''abcdefghijklmnopqrstuvwxyz'') c of
        Some l \<Rightarrow> l
      | None \<Rightarrow> c)"

definition toLowerCase :: "string \<Rightarrow> string" where
  "toLowerCase s = map lowerChar s"

text \<open>
  \<open>calculateSkillMatch\<close>: \<open>new Set(tags)\<close> drops duplicates, so the sizes are those of the
  duplicate-free lists.
\<close>

definition calculateSkillMatch :: "Agent \<Rightarrow> Job \<Rightarrow> real" where
  "calculateSkillMatch agent job =
     (let agentTags = remdups (agent_tags agent);
          jobTags = remdups (job_tags job)
      in if length jobTags = 0 then 1
         else
           let intersection = filter (\<lambda>tag. tag \<in> set agentTags) jobTags;
               matchRatio = real (length intersection) / real (length jobTags);
               agentClass = toLowerCase (agentClassification agent);
               jobSkillLevel = toLowerCase (skillLevel job);
               skillLevelBonus =
                 (if agentClass = jobSkillLevel then 0.2
                  else if (agentClass = ''expert'' \<and> jobSkillLevel = ''intermediate'') \<or>
                          (agentClass = ''intermediate'' \<and> jobSkillLevel = ''beginner'')
                       then 0.1
                  else 0)
           in min (matchRatio + skillLevelBonus) 1)"

text \<open>
  \<open>calculateAvailabilityScore\<close>: the number of assignments of the agent in the last seven
  days, stepped. \<open>now\<close> is \<open>Date.now()\<close>. (The \<open>catch\<close> branch, 0.5 when the count query
  itself fails, has no counterpart: counting a list cannot fail.)
\<close>

definition calculateAvailabilityScore :: "string \<Rightarrow> int \<Rightarrow> db \<Rightarrow> real" where
  "calculateAvailabilityScore aid now d =
     (let recentAssignments =
            length (filter (\<lambda>r. agentId r = aid \<and>
                                 assignedAt r \<ge> now - 7 * 24 * 60 * 60 * 1000)
                           (jobDistributionAgents d))
      in if recentAssignments = 0 then 1.0
         else if recentAssignments \<le> 3 then 0.8
         else if recentAssignments \<le> 6 then 0.6
         else if recentAssignments \<le> 10 then 0.4
         else 0.2)"

definition calculateAgentScore :: "Agent \<Rightarrow> Job \<Rightarrow> int \<Rightarrow> db \<Rightarrow> AgentScore" where
  "calculateAgentScore agent job now d =
     (let skillMatch = calculateSkillMatch agent job;
          rep = min (reputation agent / 5.0) 1.0;
          succ = successRate agent;
          availability = calculateAvailabilityScore (agent_id agent) now d
      in \<lparr> sc_agentId = agent_id agent,
           sc_agentName = agentName agent,
           sc_agentAddress = agentAddress agent,
           score = skillMatch * 0.35 + rep * 0.25 + succ * 0.25 + availability * 0.15,
           factors = \<lparr> f_skillMatch = skillMatch, f_reputation = rep,
                       f_successRate = succ, f_availability = availability \<rparr> \<rparr>)"

text \<open>
  The skillMatch factor as the specification words it: the four-level scale is the one of
  \<open>isSkillLevelMatch\<close>, "one tier above" is the next index on it.
\<close>

definition skillTier :: "string \<Rightarrow> nat option" where
  "skillTier s =
     (if s = ''beginner'' then Some 0
      else if s = ''intermediate'' then Some 1
      else if s = ''advanced'' then Some 2
      else if s = ''expert'' then Some 3
      else None)"

definition oneTierAbove :: "string \<Rightarrow> string \<Rightarrow> bool" where
  "oneTierAbove a j =
     (case (skillTier a, skillTier j) of
        (Some m, Some n) \<Rightarrow> m = Suc n
      | _ \<Rightarrow> False)"

definition spec_skillMatch :: "Agent \<Rightarrow> Job \<Rightarrow> real" where
  "spec_skillMatch agent job =
     (let jobTagCount = card (set (job_tags job));
          base = (if jobTagCount = 0 then 1
                  else real (card (set (job_tags job) \<inter> set (agent_tags agent))) /
                       real jobTagCount);
          bonus = (if agentClassification agent = skillLevel job then 0.2
                   else if oneTierAbove (agentClassification agent) (skillLevel job) then 0.1
                   else 0)
      in min (base + bonus) 1)"

section \<open>The data store (Prisma client calls)\<close>

text \<open>
  A failing call throws. \<open>NotFound\<close> is the source's own
  \<^verbatim>\<open>throw new Error(`... not found`)\<close>; \<open>Persistence\<close> is an error raised by the store:
  for a constraint of the schema (\<open>@id\<close>, \<open>@unique\<close>, \<open>@@unique\<close>, \<open>@relation\<close>), for an
  \<open>update\<close> whose row does not exist, for a value that its column cannot hold
  (\<open>InvalidValue\<close>), and for an interactive transaction that has expired before it could
  commit (\<open>TransactionExpired\<close>); \<open>TypeError\<close> is a property read on \<open>undefined\<close>.
\<close>

datatype prisma_error =
  UniqueConstraintFailed | ForeignKeyConstraintFailed | RecordNotFound | InvalidValue |
  TransactionExpired

datatype error = NotFound | Persistence prisma_error | TypeError

text \<open>
  An operation returns what it returns or throws, together with the store it leaves
  behind. \<open>$transaction\<close> runs its body on the store and commits the body's writes only
  when the body returns; when the body throws, the store is the one before.
\<close>

definition transaction :: "(db \<Rightarrow> error + 'a \<times> db) \<Rightarrow> db \<Rightarrow> (error + 'a) \<times> db" where
  "transaction body d =
     (case body d of
        Inl e \<Rightarrow> (Inl e, d)
      | Inr (r, d') \<Rightarrow> (Inr r, d'))"

text \<open>
  The values a column holds: an \<open>Int\<close> column is a 32-bit signed integer, a text column
  (\<open>String\<close>, \<open>@db.Text\<close>) holds no character U+0000. A write of any other value throws and
  changes nothing. (A number written to an \<open>Int\<close> column is taken to be integral.)
\<close>

definition int32 :: "int \<Rightarrow> bool" where
  "int32 n \<longleftrightarrow> - 2147483648 \<le> n \<and> n \<le> 2147483647"

definition pgText :: "string \<Rightarrow> bool" where
  "pgText s \<longleftrightarrow> CHR 0x00 \<notin> set s"

definition job_findUnique :: "string \<Rightarrow> db \<Rightarrow> Job option" where
  "job_findUnique jid d = find (\<lambda>j. job_id j = jid) (jobs d)"

definition job_update :: "string \<Rightarrow> (Job \<Rightarrow> Job) \<Rightarrow> db \<Rightarrow> error + db" where
  "job_update jid f d =
     (case job_findUnique jid d of
        None \<Rightarrow> Inl (Persistence RecordNotFound)
      | Some _ \<Rightarrow> Inr (d\<lparr>jobs := map (\<lambda>j. if job_id j = jid then f j else j) (jobs d)\<rparr>))"

definition agent_findUnique :: "string \<Rightarrow> db \<Rightarrow> Agent option" where
  "agent_findUnique aid d = find (\<lambda>a. agent_id a = aid) (agents d)"

definition agent_update :: "string \<Rightarrow> (Agent \<Rightarrow> Agent) \<Rightarrow> db \<Rightarrow> error + db" where
  "agent_update aid f d =
     (case agent_findUnique aid d of
        None \<Rightarrow> Inl (Persistence RecordNotFound)
      | Some a \<Rightarrow>
          if int32 (totalJobsCompleted (f a))
          then Inr (d\<lparr>agents := map (\<lambda>a. if agent_id a = aid then f a else a) (agents d)\<rparr>)
          else Inl (Persistence InvalidValue))"

definition jobDistributionRecord_findUnique :: "string \<Rightarrow> db \<Rightarrow> JobDistributionRecord option" where
  "jobDistributionRecord_findUnique did d = find (\<lambda>r. dr_id r = did) (jobDistributionRecords d)"

text \<open>
  \<open>create\<close> on \<open>JobDistributionRecord\<close>: \<open>id\<close> is the primary key, \<open>jobId\<close> is \<open>@unique\<close>
  and references \<open>Job.id\<close>.
\<close>

definition jobDistributionRecord_create :: "JobDistributionRecord \<Rightarrow> db \<Rightarrow> error + db" where
  "jobDistributionRecord_create r d =
     (if dr_id r \<in> set (map dr_id (jobDistributionRecords d)) \<or>
         jobId r \<in> set (map jobId (jobDistributionRecords d))
      then Inl (Persistence UniqueConstraintFailed)
      else if jobId r \<notin> set (map job_id (jobs d))
      then Inl (Persistence ForeignKeyConstraintFailed)
      else Inr (d\<lparr>jobDistributionRecords := jobDistributionRecords d @ [r]\<rparr>))"

definition jobDistributionRecord_update ::
  "string \<Rightarrow> (JobDistributionRecord \<Rightarrow> JobDistributionRecord) \<Rightarrow> db \<Rightarrow> error + db" where
  "jobDistributionRecord_update did f d =
     (case jobDistributionRecord_findUnique did d of
        None \<Rightarrow> Inl (Persistence RecordNotFound)
      | Some _ \<Rightarrow>
          Inr (d\<lparr>jobDistributionRecords :=
                   map (\<lambda>r. if dr_id r = did then f r else r) (jobDistributionRecords d)\<rparr>))"

text \<open>
  \<open>createMany\<close> on \<open>JobDistributionAgent\<close>: \<open>@@unique([jobDistributionId, agentId])\<close>, and
  both columns are foreign keys.
\<close>

definition assignmentKey :: "JobDistributionAgent \<Rightarrow> string \<times> string" where
  "assignmentKey r = (jobDistributionId r, agentId r)"

definition jobDistributionAgent_createMany :: "JobDistributionAgent list \<Rightarrow> db \<Rightarrow> error + db" where
  "jobDistributionAgent_createMany rows d =
     (if \<not> distinct (map assignmentKey rows) \<or>
         (\<exists>r \<in> set rows. assignmentKey r \<in> set (map assignmentKey (jobDistributionAgents d)))
      then Inl (Persistence UniqueConstraintFailed)
      else if \<exists>r \<in> set rows.
                jobDistributionId r \<notin> set (map dr_id (jobDistributionRecords d)) \<or>
                agentId r \<notin> set (map agent_id (agents d))
      then Inl (Persistence ForeignKeyConstraintFailed)
      else Inr (d\<lparr>jobDistributionAgents := jobDistributionAgents d @ rows\<rparr>))"

definition jobDistributionAgent_findUnique ::
  "string \<Rightarrow> string \<Rightarrow> db \<Rightarrow> JobDistributionAgent option" where
  "jobDistributionAgent_findUnique did aid d =
     find (\<lambda>r. jobDistributionId r = did \<and> agentId r = aid) (jobDistributionAgents d)"

text \<open>
  \<open>update\<close> on \<open>JobDistributionAgent\<close>. \<open>UpdateData\<close> is the \<open>data\<close> object the tracker
  passes: \<open>workStatus\<close> always, every other field only when it is present (\<open>Some\<close>). A
  field that is present is written, a field that is absent keeps the stored value.
  \<open>progress\<close> and \<open>executionTimeMs\<close> are \<open>Int?\<close> columns, \<open>executionResult\<close> and
  \<open>errorMessage\<close> are text columns: the update is refused as a whole when one of the
  values does not fit. (An update of a row that does not exist is reported here as
  \<open>RecordNotFound\<close> whatever its values; nothing below depends on which of the two
  errors such a call throws.)
\<close>

record UpdateData =
  data_workStatus :: AgentWorkStatus
  data_progress :: "int option"
  data_executionResult :: "string option"
  data_errorMessage :: "string option"
  data_executionTimeMs :: "int option"
  data_completedAt :: "int option"

definition fitsColumns :: "UpdateData \<Rightarrow> bool" where
  "fitsColumns dat \<longleftrightarrow>
     (case data_progress dat of Some p \<Rightarrow> int32 p | None \<Rightarrow> True) \<and>
     (case data_executionResult dat of Some x \<Rightarrow> pgText x | None \<Rightarrow> True) \<and>
     (case data_errorMessage dat of Some m \<Rightarrow> pgText m | None \<Rightarrow> True) \<and>
     (case data_executionTimeMs dat of Some t \<Rightarrow> int32 t | None \<Rightarrow> True)"

definition writeData :: "UpdateData \<Rightarrow> JobDistributionAgent \<Rightarrow> JobDistributionAgent" where
  "writeData dat r =
     r\<lparr> workStatus := data_workStatus dat,
        progress := (case data_progress dat of Some p \<Rightarrow> Some p | None \<Rightarrow> progress r),
        executionResult :=
          (case data_executionResult dat of Some x \<Rightarrow> Some x | None \<Rightarrow> executionResult r),
        errorMessage :=
          (case data_errorMessage dat of Some m \<Rightarrow> Some m | None \<Rightarrow> errorMessage r),
        executionTimeMs :=
          (case data_executionTimeMs dat of Some t \<Rightarrow> Some t | None \<Rightarrow> executionTimeMs r),
        completedAt :=
          (case data_completedAt dat of Some t \<Rightarrow> Some t | None \<Rightarrow> completedAt r) \<rparr>"

definition jobDistributionAgent_update :: "string \<Rightarrow> string \<Rightarrow> UpdateData \<Rightarrow> db \<Rightarrow> error + db" where
  "jobDistributionAgent_update did aid dat d =
     (case jobDistributionAgent_findUnique did aid d of
        None \<Rightarrow> Inl (Persistence RecordNotFound)
      | Some _ \<Rightarrow>
          if fitsColumns dat
          then Inr (d\<lparr>jobDistributionAgents :=
                        map (\<lambda>r. if jobDistributionId r = did \<and> agentId r = aid
                                  then writeData dat r else r)
                            (jobDistributionAgents d)\<rparr>)
          else Inl (Persistence InvalidValue))"

definition jobDistributionAgent_updateMany ::
  "(JobDistributionAgent \<Rightarrow> bool) \<Rightarrow> (JobDistributionAgent \<Rightarrow> JobDistributionAgent) \<Rightarrow> db \<Rightarrow> db" where
  "jobDistributionAgent_updateMany wh f d =
     d\<lparr>jobDistributionAgents := map (\<lambda>r. if wh r then f r else r) (jobDistributionAgents d)\<rparr>"

definition jobDistributionAgent_count :: "(JobDistributionAgent \<Rightarrow> bool) \<Rightarrow> db \<Rightarrow> int" where
  "jobDistributionAgent_count wh d = int (length (filter wh (jobDistributionAgents d)))"

definition agentPerformance_findUnique :: "string \<Rightarrow> db \<Rightarrow> AgentPerformance option" where
  "agentPerformance_findUnique aid d = find (\<lambda>p. perf_agentId p = aid) (agentPerformances d)"

text \<open>
  \<open>create\<close> and \<open>update\<close> on \<open>AgentPerformance\<close>: \<open>agentId\<close> is \<open>@unique\<close>, the three
  counters are \<open>Int\<close> columns.
\<close>

definition countersFit :: "AgentPerformance \<Rightarrow> bool" where
  "countersFit p \<longleftrightarrow> int32 (totalJobs p) \<and> int32 (completedJobs p) \<and> int32 (failedJobs p)"

definition agentPerformance_create :: "AgentPerformance \<Rightarrow> db \<Rightarrow> error + db" where
  "agentPerformance_create p d =
     (if \<not> countersFit p
      then Inl (Persistence InvalidValue)
      else if perf_agentId p \<in> set (map perf_agentId (agentPerformances d))
      then Inl (Persistence UniqueConstraintFailed)
      else Inr (d\<lparr>agentPerformances := agentPerformances d @ [p]\<rparr>))"

definition agentPerformance_update ::
  "string \<Rightarrow> (AgentPerformance \<Rightarrow> AgentPerformance) \<Rightarrow> db \<Rightarrow> error + db" where
  "agentPerformance_update aid f d =
     (case agentPerformance_findUnique aid d of
        None \<Rightarrow> Inl (Persistence RecordNotFound)
      | Some p \<Rightarrow>
          if countersFit (f p)
          then Inr (d\<lparr>agentPerformances :=
                        map (\<lambda>p. if perf_agentId p = aid then f p else p) (agentPerformances d)\<rparr>)
          else Inl (Persistence InvalidValue))"

definition executionLog_create :: "ExecutionLog \<Rightarrow> db \<Rightarrow> db" where
  "executionLog_create l d = d\<lparr>executionLogs := executionLogs d @ [l]\<rparr>"

text \<open>
  The foreign keys of the schema, as a property of a store: every assignment belongs to a
  distribution record and to an agent, every distribution record to a job.
\<close>

definition referentialIntegrity :: "db \<Rightarrow> bool" where
  "referentialIntegrity d \<longleftrightarrow>
     (\<forall>r \<in> set (jobDistributionAgents d).
        jobDistributionId r \<in> set (map dr_id (jobDistributionRecords d)) \<and>
        agentId r \<in> set (map agent_id (agents d))) \<and>
     (\<forall>r \<in> set (jobDistributionRecords d). jobId r \<in> set (map job_id (jobs d)))"

section \<open>Distribution coordinator and result selector (JobDistributorService)\<close>

text \<open>
  \<open>x || undefined\<close> maps a falsy value to \<open>undefined\<close>: the number 0 and the empty string
  are falsy, a \<open>Date\<close> object never is.
\<close>

definition truthyNumber :: "'a::zero option \<Rightarrow> 'a option" where
  "truthyNumber x = (case x of Some v \<Rightarrow> if v = 0 then None else Some v | None \<Rightarrow> None)"

definition truthyString :: "string option \<Rightarrow> string option" where
  "truthyString x = (case x of Some s \<Rightarrow> if s = [] then None else Some s | None \<Rightarrow> None)"

text \<open>
  \<open>createDistributionRecord(jobId, agents)\<close>. \<open>newId\<close> is the \<open>cuid()\<close> the store generates
  for the new record, \<open>now\<close> the value of \<open>new Date()\<close>. \<open>newAssignment\<close> is the object
  built for each agent inside \<open>agents.map\<close>; the columns it does not name take the
  schema's defaults.
\<close>

definition newAssignment :: "string \<Rightarrow> int \<Rightarrow> Agent \<Rightarrow> JobDistributionAgent" where
  "newAssignment recordId now agent =
     \<lparr> jobDistributionId = recordId, agentId = agent_id agent, assignedAt = now,
       workStatus = ASSIGNED, executionResult = None, startedAt = None, completedAt = None,
       progress = None, errorMessage = None, executionTimeMs = None, retryCount = 0 \<rparr>"

definition createDistributionRecord ::
  "string \<Rightarrow> Agent list \<Rightarrow> string \<Rightarrow> int \<Rightarrow> db \<Rightarrow> (error + JobDistributionRecord) \<times> db" where
  "createDistributionRecord jid ags newId now d =
     (case job_findUnique jid d of
        None \<Rightarrow> (Inl NotFound, d)
      | Some job \<Rightarrow>
          let criteria = \<lparr> mc_tags = job_tags job, mc_category = category job,
                           mc_skillLevel = skillLevel job,
                           mc_maxBudget = truthyNumber (maxBudget job),
                           mc_autoAcceptJobs = True, mc_isActive = True \<rparr>; record =
                \<lparr> dr_id = newId, jobId = jid, jobName = jobTitle job,
                  matchCriteria = criteria,
                  totalAgents = int (length ags), assignedCount = int (length ags),
                  responseCount = 0,
                  assignedAgentId = None, assignedAgentName = None \<rparr>
          in transaction (\<lambda>tx.
               case jobDistributionRecord_create record tx of
                 Inl e \<Rightarrow> Inl e
               | Inr tx1 \<Rightarrow>
                  (case jobDistributionAgent_createMany
                          (map (newAssignment (dr_id record) now) ags) tx1 of
                     Inl e \<Rightarrow> Inl e
                   | Inr tx2 \<Rightarrow>
                      (case job_update jid (\<lambda>j. j\<lparr>status := DISTRIBUTED\<rparr>) tx2 of
                         Inl e \<Rightarrow> Inl e
                       | Inr tx3 \<Rightarrow> Inr (record, tx3)))) d)"

text \<open>
  \<open>getDistributionDetail\<close>: the record with its \<open>assignedAgents\<close> (the assignments of the
  distribution, in table order), each joined with its agent. The relation is required; an assignment without its agent makes
  \<open>assignment.agent.agentName\<close> throw.
\<close>

definition toExecutionResult :: "JobDistributionAgent \<Rightarrow> Agent \<Rightarrow> AgentExecutionResult" where
  "toExecutionResult assignment agent =
     \<lparr> res_agentId = agentId assignment,
       res_agentName = agentName agent,
       res_distributionId = jobDistributionId assignment,
       res_workStatus = workStatus assignment,
       res_executionResult = truthyString (executionResult assignment),
       res_executionTimeMs = truthyNumber (executionTimeMs assignment),
       res_startedAt = startedAt assignment,
       res_completedAt = completedAt assignment,
       res_errorMessage = truthyString (errorMessage assignment) \<rparr>"

definition joinAgent :: "db \<Rightarrow> JobDistributionAgent \<Rightarrow> AgentExecutionResult option" where
  "joinAgent d assignment =
     map_option (toExecutionResult assignment) (agent_findUnique (agentId assignment) d)"

definition assignedAgents :: "string \<Rightarrow> db \<Rightarrow> JobDistributionAgent list" where
  "assignedAgents did d = filter (\<lambda>r. jobDistributionId r = did) (jobDistributionAgents d)"

definition getDistributionDetail :: "string \<Rightarrow> db \<Rightarrow> error + DistributionDetail option" where
  "getDistributionDetail did d =
     (case jobDistributionRecord_findUnique did d of
        None \<Rightarrow> Inr None
      | Some record \<Rightarrow>
         (case those (map (joinAgent d) (assignedAgents did d)) of
            None \<Rightarrow> Inl TypeError
          | Some execs \<Rightarrow>
              Inr (Some \<lparr> dd_id = dr_id record, dd_jobId = jobId record,
                          dd_jobName = jobName record,
                          dd_totalAgents = totalAgents record,
                          dd_assignedCount = assignedCount record,
                          dd_responseCount = responseCount record,
                          dd_assignedAgentId = truthyString (assignedAgentId record),
                          dd_assignedAgentName = truthyString (assignedAgentName record),
                          agentExecutions = execs \<rparr>)))"

text \<open>
  \<open>updateResponseCount\<close>: a count and an update, outside any transaction; the update throws
  when the record does not exist.
\<close>

definition updateResponseCount :: "string \<Rightarrow> db \<Rightarrow> (error + unit) \<times> db" where
  "updateResponseCount did d =
     (let cnt = jobDistributionAgent_count
                  (\<lambda>r. jobDistributionId r = did \<and>
                        workStatus r \<in> set [WORKING, COMPLETED, FAILED]) d
      in case jobDistributionRecord_update did (\<lambda>r. r\<lparr>responseCount := cnt\<rparr>) d of
           Inl e \<Rightarrow> (Inl e, d)
         | Inr d' \<Rightarrow> (Inr (), d'))"

text \<open>
  \<open>calculateResultScore\<close>. The guards \<open>if (execution.executionTimeMs)\<close> and
  \<open>execution.executionResult && ...length > 0\<close> are truthiness tests. \<open>length\<close> counts the
  characters of the model's string.
\<close>

definition calculateResultScore :: "AgentExecutionResult \<Rightarrow> real" where
  "calculateResultScore execution =
     (if res_workStatus execution = COMPLETED then 100 else 0) +
     (case truthyNumber (res_executionTimeMs execution) of
        Some t \<Rightarrow> max 0 (50 - real_of_int t / 1000 / 60)
      | None \<Rightarrow> 0) +
     (case truthyString (res_executionResult execution) of
        Some s \<Rightarrow> min 20 (real (length s) / 100)
      | None \<Rightarrow> 0)"

datatype strategy = first_completed | best_scored

text \<open>
  The \<open>switch\<close> of \<open>selectBestAgentAndComplete\<close>. \<open>Array.prototype.sort\<close> is stable;
  \<open>sort_key\<close> is the stable insertion sort of the list library. The comparator
  \<open>(a.completedAt?.getTime() || 0) - (b.completedAt?.getTime() || 0)\<close> sorts ascending by
  \<open>completedAtTime\<close>, the comparator \<open>scoreB - scoreA\<close> descending by score. \<open>[0]\<close> of an
  empty array is \<open>undefined\<close>. (The \<open>default\<close> branch is unreachable for the two strategies
  the parameter's type admits.)
\<close>

definition completedAtTime :: "AgentExecutionResult \<Rightarrow> int" where
  "completedAtTime a = (case res_completedAt a of Some t \<Rightarrow> t | None \<Rightarrow> 0)"

definition selectAgent :: "strategy \<Rightarrow> AgentExecutionResult list \<Rightarrow> AgentExecutionResult option" where
  "selectAgent strat completedAgents =
     (case strat of
        first_completed \<Rightarrow>
          (case sort_key completedAtTime completedAgents of [] \<Rightarrow> None | a # _ \<Rightarrow> Some a)
      | best_scored \<Rightarrow>
          (case sort_key (\<lambda>a. - calculateResultScore a) completedAgents of
             [] \<Rightarrow> None | a # _ \<Rightarrow> Some a))"

text \<open>
  The \<open>data\<close> objects of the two bulk updates: what winner selection writes on the other
  outstanding assignments, and what the timeout sweep writes.
\<close>

definition cancelData :: "int \<Rightarrow> JobDistributionAgent \<Rightarrow> JobDistributionAgent" where
  "cancelData now r =
     r\<lparr>workStatus := CANCELLED, completedAt := Some now,
       errorMessage := Some ''Task completed by another agent''\<rparr>"

definition timeoutData :: "int \<Rightarrow> JobDistributionAgent \<Rightarrow> JobDistributionAgent" where
  "timeoutData now r =
     r\<lparr>workStatus := TIMEOUT, completedAt := Some now,
       errorMessage := Some ''Task execution timeout''\<rparr>"

definition selectBestAgentAndComplete :: "string \<Rightarrow> strategy \<Rightarrow> int \<Rightarrow> db \<Rightarrow> (error + unit) \<times> db" where
  "selectBestAgentAndComplete did strat now d =
     (case getDistributionDetail did d of
        Inl e \<Rightarrow> (Inl e, d)
      | Inr None \<Rightarrow> (Inl NotFound, d)
      | Inr (Some record) \<Rightarrow>
          let completedAgents =
                filter (\<lambda>execution. res_workStatus execution = COMPLETED) (agentExecutions record)
          in if length completedAgents = 0 then (Inr (), d)
             else
               (case selectAgent strat completedAgents of
                  None \<Rightarrow> (Inl TypeError, d)
                | Some selectedAgent \<Rightarrow>
                    transaction (\<lambda>tx.
                      case jobDistributionRecord_update did
                             (\<lambda>r. r\<lparr>assignedAgentId := Some (res_agentId selectedAgent),
                                    assignedAgentName := Some (res_agentName selectedAgent)\<rparr>) tx of
                        Inl e \<Rightarrow> Inl e
                      | Inr tx1 \<Rightarrow>
                         (case job_update (dd_jobId record) (\<lambda>j. j\<lparr>status := JOB_COMPLETED\<rparr>) tx1 of
                            Inl e \<Rightarrow> Inl e
                          | Inr tx2 \<Rightarrow>
                              Inr ((), jobDistributionAgent_updateMany
                                         (\<lambda>r. jobDistributionId r = did \<and>
                                               agentId r \<noteq> res_agentId selectedAgent \<and>
                                               workStatus r \<in> set [ASSIGNED, WORKING])
                                         (cancelData now) tx2))) d))"

text \<open>
  \<open>handleDistributionTimeout\<close>. \<open>timeoutSweep\<close> is step 2, the \<open>updateMany\<close> on the
  outstanding assignments. The lookup of the distribution, the sweep, the search for a
  COMPLETED assignment and the expiry of the job run on the transaction client \<open>tx\<close>. The
  nested \<open>this.selectBestAgentAndComplete(distributionId)\<close> does not: it runs on
  \<open>this.prisma\<close>, outside the transaction, and opens a transaction of its own. So

  \<^item> it reads the committed store \<open>d\<close>, where the writes of the sweep are not visible, and
    its own writes are committed by itself, whatever happens to the outer transaction;
  \<^item> when it throws, the outer callback throws and the sweep is rolled back;
  \<^item> when its \<open>updateMany\<close> addresses a row at all, that row is an outstanding assignment
    of the distribution, which the sweep has written and holds locked until the outer
    transaction ends, while the outer transaction awaits the nested call: the nested call
    is held until the outer transaction expires and is rolled back, then completes; the
    nested call's writes stay, the sweep's are lost, and \<open>$transaction\<close> throws
    \<open>TransactionExpired\<close> (P2028);
  \<^item> when its \<open>updateMany\<close> addresses no row, it returns at once and the sweep is
    committed on top of its writes.

  The nested \<open>updateMany\<close> has addressed a row exactly when the assignment rows after the
  nested call differ from those before (\<open>cancelData\<close> changes the \<open>workStatus\<close> of every
  row it is applied to). \<open>now\<close> is the clock at the sweep's \<open>updateMany\<close>, \<open>now'\<close> the clock
  at the nested call's.
\<close>

definition timeoutSweep :: "string \<Rightarrow> int \<Rightarrow> db \<Rightarrow> db" where
  "timeoutSweep did now tx =
     jobDistributionAgent_updateMany
       (\<lambda>r. jobDistributionId r = did \<and> workStatus r \<in> set [ASSIGNED, WORKING])
       (timeoutData now) tx"

definition handleDistributionTimeout :: "string \<Rightarrow> int \<Rightarrow> int \<Rightarrow> db \<Rightarrow> (error + unit) \<times> db" where
  "handleDistributionTimeout did now now' d =
     (case jobDistributionRecord_findUnique did d of
        None \<Rightarrow> (Inl NotFound, d)
      | Some record \<Rightarrow>
          let tx1 = timeoutSweep did now d;
              hasCompleted = find (\<lambda>r. jobDistributionId r = did \<and> workStatus r = COMPLETED)
                                  (jobDistributionAgents tx1)
          in (case hasCompleted of
                Some _ \<Rightarrow>
                  (case selectBestAgentAndComplete did first_completed now' d of
                     (Inl e, _) \<Rightarrow> (Inl e, d)
                   | (Inr _, d') \<Rightarrow>
                       if jobDistributionAgents d' \<noteq> jobDistributionAgents d
                       then (Inl (Persistence TransactionExpired), d')
                       else (Inr (), timeoutSweep did now d'))
              | None \<Rightarrow>
                  (case job_update (jobId record) (\<lambda>j. j\<lparr>status := EXPIRED\<rparr>) tx1 of
                     Inl e \<Rightarrow> (Inl e, d)
                   | Inr tx2 \<Rightarrow> (Inr (), tx2))))"

section \<open>Execution tracker (ExecutionTrackerService)\<close>

text \<open>
  \<open>logExecutionEvent\<close> is best effort: it returns without writing when the distribution
  is unknown, and never throws.
\<close>

definition logExecutionEvent :: "string \<Rightarrow> string \<Rightarrow> AgentWorkStatus \<Rightarrow> EventData \<Rightarrow> db \<Rightarrow> db" where
  "logExecutionEvent did aid ev dat d =
     (case jobDistributionRecord_findUnique did d of
        None \<Rightarrow> d
      | Some distribution \<Rightarrow>
          executionLog_create \<lparr> log_jobId = jobId distribution, log_agentId = aid,
                                eventType = ev, eventData = dat \<rparr> d)"

text \<open>
  \<open>updateExecutionStatus\<close>: \<open>updateData\<close> always carries \<open>workStatus\<close>, carries each
  optional field that is not \<open>undefined\<close>, and carries \<open>completedAt\<close> when the new status is
  one of COMPLETED, FAILED, CANCELLED, TIMEOUT. The current row is not read.
\<close>

definition updateData :: "ExecutionStatusUpdate \<Rightarrow> int \<Rightarrow> UpdateData" where
  "updateData st now =
     \<lparr> data_workStatus = upd_workStatus st,
       data_progress = upd_progress st,
       data_executionResult = upd_executionResult st,
       data_errorMessage = upd_errorMessage st,
       data_executionTimeMs = upd_executionTimeMs st,
       data_completedAt =
         (if upd_workStatus st \<in> set [COMPLETED, FAILED, CANCELLED, TIMEOUT]
          then Some now else None) \<rparr>"

definition updateExecutionStatus ::
  "string \<Rightarrow> string \<Rightarrow> ExecutionStatusUpdate \<Rightarrow> int \<Rightarrow> db \<Rightarrow> (error + unit) \<times> db" where
  "updateExecutionStatus did aid st now d =
     (case jobDistributionAgent_update did aid (updateData st now) d of
        Inl e \<Rightarrow> (Inl e, d)
      | Inr d1 \<Rightarrow>
          (Inr (), logExecutionEvent did aid (upd_workStatus st)
                     \<lparr> ev_progress = upd_progress st,
                       ev_errorMessage = upd_errorMessage st,
                       ev_executionTimeMs = upd_executionTimeMs st \<rparr> d1))"

text \<open>
  \<open>updateAgentPerformance\<close> catches every error: it returns the store as its last
  successful write left it. \<open>executionTimeMs && isSuccess\<close> is a truthiness test.
  The quotients are JavaScript's for every non-zero divisor (HOL's \<open>x / 0\<close> is 0).
\<close>

definition mirrorOnAgent :: "string \<Rightarrow> int \<Rightarrow> real \<Rightarrow> db \<Rightarrow> db" where
  "mirrorOnAgent aid completed rate d =
     (case agent_update aid (\<lambda>a. a\<lparr>totalJobsCompleted := completed, successRate := rate\<rparr>) d of
        Inl _ \<Rightarrow> d
      | Inr d' \<Rightarrow> d')"

definition updateAgentPerformance :: "string \<Rightarrow> bool \<Rightarrow> int option \<Rightarrow> db \<Rightarrow> db" where
  "updateAgentPerformance aid isSuccess executionTime d =
     (case agentPerformance_findUnique aid d of
        Some currentPerformance \<Rightarrow>
          let total = totalJobs currentPerformance + 1;
              completed = (if isSuccess then completedJobs currentPerformance + 1
                           else completedJobs currentPerformance);
              failed = (if \<not> isSuccess then failedJobs currentPerformance + 1
                        else failedJobs currentPerformance);
              avg = (case truthyNumber executionTime of
                       Some t \<Rightarrow>
                         if isSuccess
                         then (avgExecutionTime currentPerformance *
                                 real_of_int (completedJobs currentPerformance) + real_of_int t) /
                              real_of_int completed
                         else avgExecutionTime currentPerformance
                     | None \<Rightarrow> avgExecutionTime currentPerformance);
              rate = real_of_int completed / real_of_int total
          in (case agentPerformance_update aid
                     (\<lambda>p. p\<lparr>totalJobs := total, completedJobs := completed,
                            failedJobs := failed, avgExecutionTime := avg,
                            perf_successRate := rate\<rparr>) d of
                Inl _ \<Rightarrow> d
              | Inr d1 \<Rightarrow> mirrorOnAgent aid completed rate d1)
      | None \<Rightarrow>
          let completed = (if isSuccess then 1 else 0);
              failed = (if isSuccess then 0 else 1);
              avg = (case truthyNumber executionTime of
                       Some t \<Rightarrow> if isSuccess then real_of_int t else 0
                     | None \<Rightarrow> 0);
              rate = (if isSuccess then 1 else 0)
          in (case agentPerformance_create
                     \<lparr> perf_agentId = aid, totalJobs = 1, completedJobs = completed,
                       failedJobs = failed, avgExecutionTime = avg,
                       perf_successRate = rate \<rparr> d of
                Inl _ \<Rightarrow> d
              | Inr d1 \<Rightarrow> mirrorOnAgent aid completed rate d1))"

definition handleExecutionCompleted ::
  "string \<Rightarrow> string \<Rightarrow> string \<Rightarrow> int option \<Rightarrow> int \<Rightarrow> db \<Rightarrow> (error + unit) \<times> db" where
  "handleExecutionCompleted did aid result executionTime now d =
     (case updateExecutionStatus did aid
             \<lparr> upd_distributionId = did, upd_agentId = aid, upd_workStatus = COMPLETED,
               upd_progress = None, upd_executionResult = Some result,
               upd_errorMessage = None, upd_executionTimeMs = executionTime \<rparr> now d of
        (Inl e, d') \<Rightarrow> (Inl e, d')
      | (Inr _, d1) \<Rightarrow> (Inr (), updateAgentPerformance aid True executionTime d1))"

definition handleExecutionFailed ::
  "string \<Rightarrow> string \<Rightarrow> string \<Rightarrow> int option \<Rightarrow> int \<Rightarrow> db \<Rightarrow> (error + unit) \<times> db" where
  "handleExecutionFailed did aid message executionTime now d =
     (case updateExecutionStatus did aid
             \<lparr> upd_distributionId = did, upd_agentId = aid, upd_workStatus = FAILED,
               upd_progress = None, upd_executionResult = None,
               upd_errorMessage = Some message, upd_executionTimeMs = executionTime \<rparr> now d of
        (Inl e, d') \<Rightarrow> (Inl e, d')
      | (Inr _, d1) \<Rightarrow> (Inr (), updateAgentPerformance aid False executionTime d1))"

definition handleTimeout :: "string \<Rightarrow> string \<Rightarrow> int \<Rightarrow> db \<Rightarrow> (error + unit) \<times> db" where
  "handleTimeout did aid now d =
     (case updateExecutionStatus did aid
             \<lparr> upd_distributionId = did, upd_agentId = aid, upd_workStatus = TIMEOUT,
               upd_progress = None, upd_executionResult = None,
               upd_errorMessage = Some ''Task execution timeout'',
               upd_executionTimeMs = None \<rparr> now d of
        (Inl e, d') \<Rightarrow> (Inl e, d')
      | (Inr _, d1) \<Rightarrow> (Inr (), updateAgentPerformance aid False None d1))"

section \<open>The specification's formulas and example stores\<close>

text \<open>
  The definitions named \<open>spec_...\<close> follow the wording of the specification and are
  compared with the code below; the others are concrete inputs.
\<close>

definition empty_db :: db where
  "empty_db = \<lparr> jobs = [], agents = [], jobDistributionRecords = [],
      jobDistributionAgents = [], executionLogs = [], agentPerformances = [] \<rparr>"

definition c7_agent :: Agent where
  "c7_agent = \<lparr> agent_id = ''a1'', agentName = ''Ada'', agentAddress = ''http://a1'',
      agentClassification = ''advanced'', agent_tags = [''nlp''], autoAcceptJobs = True,
      isActive = True, reputation = 4, successRate = 0.5, totalJobsCompleted = 2,
      price = 0, isFree = True \<rparr>"

definition c7_job :: Job where
  "c7_job = \<lparr> job_id = ''j1'', jobTitle = ''Summarise'', category = ''text'',
      skillLevel = ''intermediate'', job_tags = [''nlp'', ''vision''], maxBudget = None,
      status = OPEN \<rparr>"

definition c10_agent :: Agent where
  "c10_agent = \<lparr> agent_id = ''a1'', agentName = ''Ada'', agentAddress = ''http://a1'',
      agentClassification = ''expert'', agent_tags = [''nlp''], autoAcceptJobs = True,
      isActive = True, reputation = -100, successRate = 0, totalJobsCompleted = 0,
      price = 0, isFree = True \<rparr>"

definition c10_good_agent :: Agent where
  "c10_good_agent = \<lparr> agent_id = ''a1'', agentName = ''Ada'', agentAddress = ''http://a1'',
      agentClassification = ''expert'', agent_tags = [''nlp''], autoAcceptJobs = True,
      isActive = True, reputation = 4, successRate = 0.5, totalJobsCompleted = 0,
      price = 0, isFree = True \<rparr>"

definition c10_job :: Job where
  "c10_job = \<lparr> job_id = ''j1'', jobTitle = ''Summarise'', category = ''text'',
      skillLevel = ''expert'', job_tags = [''nlp''], maxBudget = None, status = OPEN \<rparr>"

text \<open>
  The response count as the specification words it: the assignments that are no longer
  ASSIGNED.
\<close>

definition spec_responseCount :: "string \<Rightarrow> db \<Rightarrow> int" where
  "spec_responseCount did d =
     int (length (filter (\<lambda>r. jobDistributionId r = did \<and> workStatus r \<noteq> ASSIGNED)
                         (jobDistributionAgents d)))"

definition ex_job :: Job where
  "ex_job = \<lparr> job_id = ''j1'', jobTitle = ''Summarise'', category = ''text'',
      skillLevel = ''expert'', job_tags = [''nlp''], maxBudget = None, status = DISTRIBUTED \<rparr>"

definition ex_agent :: "string \<Rightarrow> string \<Rightarrow> Agent" where
  "ex_agent i n = \<lparr> agent_id = i, agentName = n, agentAddress = ''http://agent'',
      agentClassification = ''expert'', agent_tags = [''nlp''], autoAcceptJobs = True,
      isActive = True, reputation = 4, successRate = 0.5, totalJobsCompleted = 0,
      price = 0, isFree = True \<rparr>"

definition ex_record :: JobDistributionRecord where
  "ex_record = \<lparr> dr_id = ''d1'', jobId = ''j1'', jobName = ''Summarise'',
      matchCriteria = \<lparr> mc_tags = [''nlp''], mc_category = ''text'', mc_skillLevel = ''expert'',
                        mc_maxBudget = None, mc_autoAcceptJobs = True, mc_isActive = True \<rparr>,
      totalAgents = 2, assignedCount = 2, responseCount = 0,
      assignedAgentId = None, assignedAgentName = None \<rparr>"

definition ex_row :: "string \<Rightarrow> AgentWorkStatus \<Rightarrow> string option \<Rightarrow> int option \<Rightarrow> int option \<Rightarrow> JobDistributionAgent" where
  "ex_row a st res done ms = \<lparr> jobDistributionId = ''d1'', agentId = a, assignedAt = 0,
      workStatus = st, executionResult = res, startedAt = Some 1, completedAt = done,
      progress = None, errorMessage = None, executionTimeMs = ms, retryCount = 0 \<rparr>"

definition ex_db :: "JobDistributionAgent list \<Rightarrow> db" where
  "ex_db rows = \<lparr> jobs = [ex_job], agents = [ex_agent ''a1'' ''Ada'', ex_agent ''a2'' ''Bob''],
      jobDistributionRecords = [ex_record], jobDistributionAgents = rows,
      executionLogs = [], agentPerformances = [] \<rparr>"

definition c8_db :: db where
  "c8_db = ex_db [ex_row ''a1'' CANCELLED None (Some 5) None, ex_row ''a2'' TIMEOUT None (Some 6) None]"

text \<open>
  The result score as the specification words it, from an execution time in milliseconds
  and a result length.
\<close>

definition spec_resultScore :: "int \<Rightarrow> nat \<Rightarrow> real" where
  "spec_resultScore executionTime resultLength =
     100 + max 0 (50 - real_of_int executionTime / 60000) + min 20 (real resultLength / 100)"

text \<open>
  The result score of the specification for an assignment: its formula on the
  executionTimeMs of the row and on the length of its executionResult. A row on which no
  executionTimeMs is recorded enters the formula with 0 ms (the value JavaScript gives
  \<open>null\<close> in the quotient), a row without result with the length 0.
\<close>

definition spec_assignmentScore :: "JobDistributionAgent \<Rightarrow> real" where
  "spec_assignmentScore x =
     spec_resultScore (case executionTimeMs x of Some t \<Rightarrow> t | None \<Rightarrow> 0)
                      (case executionResult x of Some s \<Rightarrow> length s | None \<Rightarrow> 0)"

definition c6_db :: db where
  "c6_db = ex_db [ex_row ''a1'' COMPLETED (Some (replicate 50 CHR ''x'')) (Some 7) (Some 600000),
                  ex_row ''a2'' COMPLETED (Some (replicate 500 CHR ''x'')) (Some 8) (Some 10000)]"

definition c6_untimed_db :: db where
  "c6_untimed_db =
     ex_db [ex_row ''a1'' COMPLETED (Some ''ok'') (Some 7) None,
            ex_row ''a2'' COMPLETED (Some (replicate 50 CHR ''x'')) (Some 8) (Some 600000)]"

definition c3_db :: db where
  "c3_db = ex_db [ex_row ''a1'' COMPLETED (Some ''first'') (Some 5) None,
                  ex_row ''a2'' CANCELLED None (Some 6) None]"

definition c3_update :: ExecutionStatusUpdate where
  "c3_update = \<lparr> upd_distributionId = ''d1'', upd_agentId = ''a2'', upd_workStatus = WORKING,
      upd_progress = Some 50, upd_executionResult = None, upd_errorMessage = None,
      upd_executionTimeMs = None \<rparr>"

text \<open>
  The upsert of AgentPerformance as the specification words it: totalJobs incremented,
  one of completedJobs and failedJobs incremented, successRate = completedJobs/totalJobs,
  avgExecutionTime the running mean over successful completions. An agent that has
  no record yet starts from the schema's defaults, all 0.
\<close>

definition spec_performanceAfter ::
  "string \<Rightarrow> bool \<Rightarrow> int option \<Rightarrow> AgentPerformance option \<Rightarrow> AgentPerformance" where
  "spec_performanceAfter aid isSuccess timeMs old =
     (let oldTotal = (case old of Some p \<Rightarrow> totalJobs p | None \<Rightarrow> 0);
          oldCompleted = (case old of Some p \<Rightarrow> completedJobs p | None \<Rightarrow> 0);
          oldFailed = (case old of Some p \<Rightarrow> failedJobs p | None \<Rightarrow> 0);
          oldAvg = (case old of Some p \<Rightarrow> avgExecutionTime p | None \<Rightarrow> 0);
          newTotal = oldTotal + 1;
          newCompleted = (if isSuccess then oldCompleted + 1 else oldCompleted);
          newFailed = (if isSuccess then oldFailed else oldFailed + 1)
      in \<lparr> perf_agentId = aid, totalJobs = newTotal, completedJobs = newCompleted,
           failedJobs = newFailed,
           avgExecutionTime =
             (case timeMs of
                Some newTimeMs \<Rightarrow>
                  if isSuccess
                  then (oldAvg * real_of_int oldCompleted + real_of_int newTimeMs) /
                       real_of_int newCompleted
                  else oldAvg
              | None \<Rightarrow> oldAvg),
           perf_successRate = real_of_int newCompleted / real_of_int newTotal \<rparr>)"

definition c9_db :: db where
  "c9_db = ex_db [ex_row ''a1'' COMPLETED (Some ''first'') (Some 5) None,
                  ex_row ''a2'' WORKING None None None]"

definition c9_history_db :: db where
  "c9_history_db =
     c9_db \<lparr> agentPerformances :=
               [\<lparr> perf_agentId = ''a2'', totalJobs = 3, completedJobs = 2, failedJobs = 1,
                   avgExecutionTime = 1000, perf_successRate = 2 / 3 \<rparr>] \<rparr>"

definition c1_db :: db where
  "c1_db = \<lparr> jobs = [ex_job], agents = [ex_agent ''a1'' ''Ada'', ex_agent ''a2'' ''Bob''],
      jobDistributionRecords = [], jobDistributionAgents = [],
      executionLogs = [], agentPerformances = [] \<rparr>"

definition c2_db :: db where
  "c2_db = (ex_db [ex_row ''a1'' COMPLETED (Some ''first'') (Some 5) None,
                   ex_row ''a2'' WORKING None None None,
                   ex_row ''a3'' FAILED None (Some 4) None])
           \<lparr> agents := [ex_agent ''a1'' ''Ada'', ex_agent ''a2'' ''Bob'', ex_agent ''a3'' ''Cy''] \<rparr>"

definition c5_db :: db where
  "c5_db = (ex_db [ex_row ''a1'' COMPLETED (Some ''slow'') (Some 100) None,
                   ex_row ''a2'' COMPLETED (Some ''fast'') (Some 50) None,
                   ex_row ''a3'' COMPLETED (Some ''tie'') (Some 50) None])
           \<lparr> agents := [ex_agent ''a1'' ''Ada'', ex_agent ''a2'' ''Bob'', ex_agent ''a3'' ''Cy''] \<rparr>"

definition c4_db :: db where
  "c4_db = (ex_db [ex_row ''a1'' COMPLETED (Some ''first'') (Some 5) None,
                   ex_row ''a2'' WORKING None None None,
                   ex_row ''a3'' ASSIGNED None None None])
           \<lparr> agents := [ex_agent ''a1'' ''Ada'', ex_agent ''a2'' ''Bob'', ex_agent ''a3'' ''Cy''] \<rparr>"

section \<open>The agent scorer's factors and score\<close>

lemma length_filter_remdups:
  "length (filter (\<lambda>t. t \<in> A) (remdups xs)) = card (set xs \<inter> A)"
proof -
  have "length (filter (\<lambda>t. t \<in> A) (remdups xs)) = card ({t. t \<in> A} \<inter> set (remdups xs))"
    by (rule distinct_length_filter) simp
  also have "{t. t \<in> A} \<inter> set (remdups xs) = set xs \<inter> A"
    by auto
  finally show ?thesis .
qed

lemma calculateSkillMatch_bounds:
  "0 \<le> calculateSkillMatch agent job \<and> calculateSkillMatch agent job \<le> 1"
  unfolding calculateSkillMatch_def Let_def by (auto simp: min_def)

lemma calculateAvailabilityScore_bounds:
  "0 \<le> calculateAvailabilityScore a now d \<and> calculateAvailabilityScore a now d \<le> 1"
  unfolding calculateAvailabilityScore_def Let_def by auto

text \<open>
  C7, as the code has it. The skillMatch factor is the share of the job's distinct tags
  that the agent holds (1 when the job has no tags), plus 0.2 when the two skill levels are
  equal after lower-casing, else plus 0.1 exactly for the two pairs (agent expert, job
  intermediate) and (agent intermediate, job beginner), capped at 1. No other pair earns
  the 0.1: advanced over intermediate and expert over advanced, each one tier above, earn
  nothing.
\<close>

theorem calculateSkillMatch_formula:
  "calculateSkillMatch agent job =
     (let a = toLowerCase (agentClassification agent);
          j = toLowerCase (skillLevel job);
          base = (if set (job_tags job) = {} then 1
                  else real (card (set (job_tags job) \<inter> set (agent_tags agent))) /
                       real (card (set (job_tags job))));
          bonus = (if a = j then 0.2
                   else if (a = ''expert'' \<and> j = ''intermediate'') \<or>
                           (a = ''intermediate'' \<and> j = ''beginner'') then 0.1
                   else 0)
      in min (base + bonus) 1)"
  unfolding calculateSkillMatch_def Let_def
  by (simp only: length_filter_remdups length_remdups_card_conv set_remdups)
     (auto simp: min_def card_eq_0_iff)

text \<open>
  C7 as stated fails: an advanced agent holding one of the two tags of an intermediate job
  is one tier above the job's level, so the stated factor is 0.5 + 0.1, and the code
  returns 0.5.
\<close>

theorem calculateSkillMatch_counterexample:
  "calculateSkillMatch c7_agent c7_job = 0.5 \<and> spec_skillMatch c7_agent c7_job = 0.6 \<and>
   calculateSkillMatch c7_agent c7_job \<noteq> spec_skillMatch c7_agent c7_job"
  by (simp add: calculateSkillMatch_def spec_skillMatch_def c7_agent_def c7_job_def
      toLowerCase_def lowerChar_def oneTierAbove_def skillTier_def)

text \<open>
  The composite score is the weighted sum, with weights 0.35, 0.25, 0.25 and 0.15, of
  skillMatch, min(reputation / 5, 1), the stored successRate and availability. For an agent
  whose stored reputation is not negative and whose stored successRate lies in [0, 1] it
  lies in [0, 1].
\<close>

lemma calculateAgentScore_range:
  assumes "0 \<le> reputation agent" and "0 \<le> successRate agent" and "successRate agent \<le> 1"
  shows "0 \<le> score (calculateAgentScore agent job now d) \<and>
         score (calculateAgentScore agent job now d) \<le> 1 \<and>
         score (calculateAgentScore agent job now d) =
           calculateSkillMatch agent job * 0.35 + min (reputation agent / 5) 1 * 0.25 +
           successRate agent * 0.25 + calculateAvailabilityScore (agent_id agent) now d * 0.15"
proof -
  let ?s = "calculateSkillMatch agent job"
  let ?r = "min (reputation agent / 5) 1"
  let ?a = "calculateAvailabilityScore (agent_id agent) now d"
  have s: "0 \<le> ?s" "?s \<le> 1"
    using calculateSkillMatch_bounds by auto
  have a: "0 \<le> ?a" "?a \<le> 1"
    using calculateAvailabilityScore_bounds by auto
  have r: "0 \<le> ?r" "?r \<le> 1"
    using assms(1) by (auto simp: min_def)
  have eq: "score (calculateAgentScore agent job now d) =
      ?s * 0.35 + ?r * 0.25 + successRate agent * 0.25 + ?a * 0.15"
    by (simp add: calculateAgentScore_def Let_def)
  show ?thesis
    using s a r assms(2,3) unfolding eq by auto
qed

text \<open>
  C10 does not hold of the code. \<open>calculateAgentScore\<close> comments each of its four factors
  as (0-1), but \<open>Math.min(agent.reputation / 5.0, 1.0)\<close> bounds the reputation factor from
  above only, and the stored successRate is used as it is. For an agent with the stored
  reputation -100 the reputation factor is -20 and the score is -4.5; for an agent with the
  stored successRate 3 the successRate factor is 3 and the score is 1.45.
\<close>

theorem calculateAgentScore_unclamped:
  "f_reputation (factors (calculateAgentScore c10_agent c10_job 0 empty_db)) = - 20 \<and>
   score (calculateAgentScore c10_agent c10_job 0 empty_db) = - 4.5 \<and>
   f_successRate (factors (calculateAgentScore (c10_good_agent\<lparr>successRate := 3\<rparr>)
                                               c10_job 0 empty_db)) = 3 \<and>
   score (calculateAgentScore (c10_good_agent\<lparr>successRate := 3\<rparr>) c10_job 0 empty_db) = 1.45"
  by (simp add: calculateAgentScore_def c10_agent_def c10_good_agent_def c10_job_def
      empty_db_def calculateSkillMatch_def calculateAvailabilityScore_def toLowerCase_def
      lowerChar_def)

section \<open>The response count\<close>

lemma find_map_update:
  "(\<And>x. P (f x) = P x) \<Longrightarrow>
   find P (map (\<lambda>x. if P x then f x else x) xs) = map_option f (find P xs)"
  by (induction xs) auto

text \<open>
  C8, as the code has it. When the distribution record exists, \<open>updateResponseCount\<close>
  returns normally and stores as responseCount the number of the distribution's
  assignments whose workStatus is WORKING, COMPLETED or FAILED; assignments in CANCELLED
  or TIMEOUT (and IDLE) are not counted. The assignments themselves are not touched.
\<close>

theorem updateResponseCount_counts:
  assumes "jobDistributionRecord_findUnique did d = Some r"
  shows "fst (updateResponseCount did d) = Inr () \<and>
         jobDistributionRecord_findUnique did (snd (updateResponseCount did d)) =
           Some (r\<lparr>responseCount :=
                     int (length (filter (\<lambda>x. jobDistributionId x = did \<and>
                                     (workStatus x = WORKING \<or> workStatus x = COMPLETED \<or>
                                      workStatus x = FAILED))
                                  (jobDistributionAgents d)))\<rparr>) \<and>
         jobDistributionAgents (snd (updateResponseCount did d)) = jobDistributionAgents d"
proof -
  let ?c = "jobDistributionAgent_count
              (\<lambda>r. jobDistributionId r = did \<and> workStatus r \<in> set [WORKING, COMPLETED, FAILED]) d"
  have c: "?c = int (length (filter (\<lambda>x. jobDistributionId x = did \<and>
                                     (workStatus x = WORKING \<or> workStatus x = COMPLETED \<or>
                                      workStatus x = FAILED))
                                  (jobDistributionAgents d)))"
    by (simp add: jobDistributionAgent_count_def)
  have u: "jobDistributionRecord_update did (\<lambda>r. r\<lparr>responseCount := ?c\<rparr>) d =
        Inr (d\<lparr>jobDistributionRecords :=
                 map (\<lambda>r. if dr_id r = did then r\<lparr>responseCount := ?c\<rparr> else r)
                     (jobDistributionRecords d)\<rparr>)"
    using assms by (simp add: jobDistributionRecord_update_def)
  have f: "find (\<lambda>r. dr_id r = did)
             (map (\<lambda>r. if dr_id r = did then r\<lparr>responseCount := ?c\<rparr> else r)
                  (jobDistributionRecords d)) = Some (r\<lparr>responseCount := ?c\<rparr>)"
    using assms find_map_update [of "\<lambda>r. dr_id r = did" "\<lambda>r. r\<lparr>responseCount := ?c\<rparr>" "jobDistributionRecords d"]
    by (simp add: jobDistributionRecord_findUnique_def)
  show ?thesis
    unfolding updateResponseCount_def Let_def u
    using f c by (simp add: jobDistributionRecord_findUnique_def)
qed

theorem updateResponseCount_counts_witness:
  "jobDistributionRecord_findUnique ''d1'' c8_db = Some ex_record \<and>
   jobDistributionRecord_findUnique ''d1'' (snd (updateResponseCount ''d1'' c8_db)) =
     Some (ex_record\<lparr>responseCount := 0\<rparr>)"
proof -
  have h: "jobDistributionRecord_findUnique ''d1'' c8_db = Some ex_record"
    by (simp add: jobDistributionRecord_findUnique_def c8_db_def ex_db_def ex_record_def)
  show ?thesis
    using h updateResponseCount_counts [OF h]
    by (simp add: c8_db_def ex_db_def ex_row_def)
qed

text \<open>
  C8 as stated fails: with one CANCELLED and one TIMEOUT assignment, two assignments have
  left ASSIGNED, and the stored responseCount is 0.
\<close>

theorem updateResponseCount_counterexample:
  "map responseCount (jobDistributionRecords (snd (updateResponseCount ''d1'' c8_db))) = [0] \<and>
   spec_responseCount ''d1'' c8_db = 2"
  by (simp add: updateResponseCount_def jobDistributionAgent_count_def
      jobDistributionRecord_update_def jobDistributionRecord_findUnique_def
      spec_responseCount_def c8_db_def ex_db_def ex_row_def ex_record_def)

section \<open>The head of a stable sort\<close>

lemma find_filter_case:
  "find P xs = (case filter P xs of [] \<Rightarrow> None | x # _ \<Rightarrow> Some x)"
  by (induction xs) auto

lemma sort_key_first:
  fixes f :: "'a \<Rightarrow> 'k::linorder"
  assumes "sort_key f xs = y # ys"
  shows "y \<in> set xs" and "\<forall>x \<in> set xs. f y \<le> f x" and "find (\<lambda>x. f x = f y) xs = Some y"
proof -
  have s: "set xs = set (y # ys)"
    using assms set_sort [of f xs] by simp
  show "y \<in> set xs"
    using s by simp
  have "sorted (map f (sort_key f xs))"
    by (rule sorted_sort_key)
  then have "\<forall>x \<in> set ys. f y \<le> f x"
    using assms by simp
  then show "\<forall>x \<in> set xs. f y \<le> f x"
    using s by auto
  have "filter (\<lambda>x. f x = f y) xs = filter (\<lambda>x. f x = f y) (y # ys)"
    using sort_key_stable [of f "f y" xs] assms by simp
  then show "find (\<lambda>x. f x = f y) xs = Some y"
    by (simp add: find_filter_case)
qed

lemma sort_key_nonempty:
  "xs \<noteq> [] \<Longrightarrow> \<exists>y ys. sort_key f xs = y # ys"
  by (metis length_sort length_0_conv neq_Nil_conv)

section \<open>Status updates and agent performance\<close>

lemma jobDistributionAgents_logExecutionEvent [simp]:
  "jobDistributionAgents (logExecutionEvent did aid ev dat d) = jobDistributionAgents d"
  by (simp add: logExecutionEvent_def executionLog_create_def split: option.splits)

lemma agentPerformances_logExecutionEvent [simp]:
  "agentPerformances (logExecutionEvent did aid ev dat d) = agentPerformances d"
  by (simp add: logExecutionEvent_def executionLog_create_def split: option.splits)

lemma agents_logExecutionEvent [simp]:
  "agents (logExecutionEvent did aid ev dat d) = agents d"
  by (simp add: logExecutionEvent_def executionLog_create_def split: option.splits)

lemma jobDistributionAgents_mirrorOnAgent [simp]:
  "jobDistributionAgents (mirrorOnAgent aid c r d) = jobDistributionAgents d"
  by (simp add: mirrorOnAgent_def agent_update_def split: option.splits)

lemma agentPerformances_mirrorOnAgent [simp]:
  "agentPerformances (mirrorOnAgent aid c r d) = agentPerformances d"
  by (simp add: mirrorOnAgent_def agent_update_def split: option.splits)

lemma jobDistributionAgents_updateAgentPerformance [simp]:
  "jobDistributionAgents (updateAgentPerformance aid ok t d) = jobDistributionAgents d"
  by (simp add: updateAgentPerformance_def agentPerformance_update_def
      agentPerformance_create_def Let_def split: option.splits)

lemma updateExecutionStatus_found:
  assumes "jobDistributionAgent_findUnique did aid d = Some r"
    and "fitsColumns (updateData st now)"
  shows "fst (updateExecutionStatus did aid st now d) = Inr ()"
    and "jobDistributionAgents (snd (updateExecutionStatus did aid st now d)) =
           map (\<lambda>x. if jobDistributionId x = did \<and> agentId x = aid
                     then writeData (updateData st now) x else x) (jobDistributionAgents d)"
    and "agents (snd (updateExecutionStatus did aid st now d)) = agents d"
  using assms
  by (simp_all add: updateExecutionStatus_def jobDistributionAgent_update_def)

lemma updateExecutionStatus_refused:
  assumes "jobDistributionAgent_findUnique did aid d = Some r"
    and "\<not> fitsColumns (updateData st now)"
  shows "updateExecutionStatus did aid st now d = (Inl (Persistence InvalidValue), d)"
  using assms
  by (simp add: updateExecutionStatus_def jobDistributionAgent_update_def)

lemma updateExecutionStatus_missing:
  assumes "jobDistributionAgent_findUnique did aid d = None"
  shows "updateExecutionStatus did aid st now d = (Inl (Persistence RecordNotFound), d)"
  using assms
  by (simp add: updateExecutionStatus_def jobDistributionAgent_update_def)

lemma agentPerformances_updateExecutionStatus:
  "agentPerformances (snd (updateExecutionStatus did aid st now d)) = agentPerformances d"
  by (simp add: updateExecutionStatus_def jobDistributionAgent_update_def
      split: option.splits)

lemma writeData_key [simp]:
  "jobDistributionId (writeData dat x) = jobDistributionId x"
  "agentId (writeData dat x) = agentId x"
  by (simp_all add: writeData_def)

lemma findUnique_after_updateExecutionStatus:
  assumes "jobDistributionAgent_findUnique did aid d = Some r"
    and "fitsColumns (updateData st now)"
  shows "jobDistributionAgent_findUnique did aid (snd (updateExecutionStatus did aid st now d)) =
           Some (writeData (updateData st now) r)"
proof -
  let ?P = "\<lambda>x. jobDistributionId x = did \<and> agentId x = aid"
  have "find ?P (map (\<lambda>x. if ?P x then writeData (updateData st now) x else x)
                     (jobDistributionAgents d)) =
        map_option (writeData (updateData st now)) (find ?P (jobDistributionAgents d))"
    by (rule find_map_update) simp
  then show ?thesis
    using assms updateExecutionStatus_found(2) [OF assms]
    by (simp add: jobDistributionAgent_findUnique_def)
qed

lemma fitsColumns_updateData:
  "fitsColumns (updateData st now) \<longleftrightarrow>
     (case upd_progress st of Some p \<Rightarrow> int32 p | None \<Rightarrow> True) \<and>
     (case upd_executionResult st of Some x \<Rightarrow> pgText x | None \<Rightarrow> True) \<and>
     (case upd_errorMessage st of Some m \<Rightarrow> pgText m | None \<Rightarrow> True) \<and>
     (case upd_executionTimeMs st of Some x \<Rightarrow> int32 x | None \<Rightarrow> True)"
  by (simp add: fitsColumns_def updateData_def)

text \<open>
  C3, as the code has it. An assignment in a terminal state is not protected from the
  tracker: a status update or a result submission whose values the store accepts (numbers
  within the 32-bit range of the Int columns, texts without the character U+0000) is
  applied to an existing assignment whatever its current state, terminal states included.
  The assignment takes the submitted workStatus, each submitted progress, executionResult,
  errorMessage and executionTimeMs replaces the stored one, and completedAt is stamped
  anew when the submitted status is COMPLETED, FAILED, CANCELLED or TIMEOUT (and kept
  otherwise). An update that the store does not accept, or for an assignment that does
  not exist, throws and leaves the store unchanged.
\<close>

theorem updateExecutionStatus_applies:
  "(case jobDistributionAgent_findUnique did aid d of
      None \<Rightarrow>
        (\<exists>e. updateExecutionStatus did aid st now d = (Inl e, d)) \<and>
        (\<exists>e. handleExecutionCompleted did aid result t now d = (Inl e, d))
    | Some r \<Rightarrow>
        (if (case upd_progress st of Some p \<Rightarrow> int32 p | None \<Rightarrow> True) \<and>
            (case upd_executionResult st of Some x \<Rightarrow> pgText x | None \<Rightarrow> True) \<and>
            (case upd_errorMessage st of Some m \<Rightarrow> pgText m | None \<Rightarrow> True) \<and>
            (case upd_executionTimeMs st of Some x \<Rightarrow> int32 x | None \<Rightarrow> True)
         then
           fst (updateExecutionStatus did aid st now d) = Inr () \<and>
           jobDistributionAgent_findUnique did aid (snd (updateExecutionStatus did aid st now d)) =
             Some (r\<lparr> workStatus := upd_workStatus st,
                      progress := (case upd_progress st of Some p \<Rightarrow> Some p | None \<Rightarrow> progress r),
                      executionResult :=
                        (case upd_executionResult st of Some x \<Rightarrow> Some x | None \<Rightarrow> executionResult r),
                      errorMessage :=
                        (case upd_errorMessage st of Some m \<Rightarrow> Some m | None \<Rightarrow> errorMessage r),
                      executionTimeMs :=
                        (case upd_executionTimeMs st of Some x \<Rightarrow> Some x | None \<Rightarrow> executionTimeMs r),
                      completedAt :=
                        (if upd_workStatus st = COMPLETED \<or> upd_workStatus st = FAILED \<or>
                            upd_workStatus st = CANCELLED \<or> upd_workStatus st = TIMEOUT
                         then Some now else completedAt r) \<rparr>)
         else updateExecutionStatus did aid st now d = (Inl (Persistence InvalidValue), d)) \<and>
        (if pgText result \<and> (case t of Some x \<Rightarrow> int32 x | None \<Rightarrow> True)
         then
           fst (handleExecutionCompleted did aid result t now d) = Inr () \<and>
           jobDistributionAgent_findUnique did aid
               (snd (handleExecutionCompleted did aid result t now d)) =
             Some (r\<lparr> workStatus := COMPLETED,
                      executionResult := Some result,
                      executionTimeMs := (case t of Some x \<Rightarrow> Some x | None \<Rightarrow> executionTimeMs r),
                      completedAt := Some now \<rparr>)
         else handleExecutionCompleted did aid result t now d =
                (Inl (Persistence InvalidValue), d)))"
proof (cases "jobDistributionAgent_findUnique did aid d")
  case None
  then show ?thesis
    by (simp add: updateExecutionStatus_missing handleExecutionCompleted_def)
next
  case (Some r)
  let ?c = "\<lparr> upd_distributionId = did, upd_agentId = aid, upd_workStatus = COMPLETED,
               upd_progress = None, upd_executionResult = Some result,
               upd_errorMessage = None, upd_executionTimeMs = t \<rparr>"
  let ?ok = "(case upd_progress st of Some p \<Rightarrow> int32 p | None \<Rightarrow> True) \<and>
            (case upd_executionResult st of Some x \<Rightarrow> pgText x | None \<Rightarrow> True) \<and>
            (case upd_errorMessage st of Some m \<Rightarrow> pgText m | None \<Rightarrow> True) \<and>
            (case upd_executionTimeMs st of Some x \<Rightarrow> int32 x | None \<Rightarrow> True)"
  let ?okc = "pgText result \<and> (case t of Some x \<Rightarrow> int32 x | None \<Rightarrow> True)"
  have fit: "fitsColumns (updateData st now) \<longleftrightarrow> ?ok"
    by (rule fitsColumns_updateData)
  have fitc: "fitsColumns (updateData ?c now) \<longleftrightarrow> ?okc"
    by (simp add: fitsColumns_updateData)
  have a: "?ok \<Longrightarrow>
      fst (updateExecutionStatus did aid st now d) = Inr () \<and>
      jobDistributionAgent_findUnique did aid (snd (updateExecutionStatus did aid st now d)) =
        Some (writeData (updateData st now) r)"
    using updateExecutionStatus_found(1) [OF Some, of st now]
      findUnique_after_updateExecutionStatus [OF Some, of st now] fit
    by simp
  have b: "\<not> ?ok \<Longrightarrow> updateExecutionStatus did aid st now d = (Inl (Persistence InvalidValue), d)"
    using updateExecutionStatus_refused [OF Some, of st now] fit by simp
  have c1: "?okc \<Longrightarrow> fst (updateExecutionStatus did aid ?c now d) = Inr ()"
    using updateExecutionStatus_found(1) [OF Some, of ?c now] fitc by simp
  have c2: "?okc \<Longrightarrow>
      jobDistributionAgent_findUnique did aid (snd (updateExecutionStatus did aid ?c now d)) =
        Some (writeData (updateData ?c now) r)"
    using findUnique_after_updateExecutionStatus [OF Some, of ?c now] fitc by simp
  have c: "?okc \<Longrightarrow>
      fst (handleExecutionCompleted did aid result t now d) = Inr () \<and>
      jobDistributionAgent_findUnique did aid
          (snd (handleExecutionCompleted did aid result t now d)) =
        Some (writeData (updateData ?c now) r)"
    using c1 c2
    by (auto simp: handleExecutionCompleted_def jobDistributionAgent_findUnique_def
        split: prod.splits sum.splits)
  have e: "\<not> ?okc \<Longrightarrow>
      handleExecutionCompleted did aid result t now d = (Inl (Persistence InvalidValue), d)"
    using updateExecutionStatus_refused [OF Some, of ?c now] fitc
    by (simp add: handleExecutionCompleted_def)
  have w1: "writeData (updateData st now) r =
      r\<lparr> workStatus := upd_workStatus st,
         progress := (case upd_progress st of Some p \<Rightarrow> Some p | None \<Rightarrow> progress r),
         executionResult :=
           (case upd_executionResult st of Some x \<Rightarrow> Some x | None \<Rightarrow> executionResult r),
         errorMessage :=
           (case upd_errorMessage st of Some m \<Rightarrow> Some m | None \<Rightarrow> errorMessage r),
         executionTimeMs :=
           (case upd_executionTimeMs st of Some x \<Rightarrow> Some x | None \<Rightarrow> executionTimeMs r),
         completedAt :=
           (if upd_workStatus st = COMPLETED \<or> upd_workStatus st = FAILED \<or>
               upd_workStatus st = CANCELLED \<or> upd_workStatus st = TIMEOUT
            then Some now else completedAt r) \<rparr>"
    by (simp add: writeData_def updateData_def)
  have w2: "writeData (updateData ?c now) r =
      r\<lparr> workStatus := COMPLETED,
         executionResult := Some result,
         executionTimeMs := (case t of Some x \<Rightarrow> Some x | None \<Rightarrow> executionTimeMs r),
         completedAt := Some now \<rparr>"
    by (simp add: writeData_def updateData_def)
  show ?thesis
    unfolding Some option.case
    using a b c e unfolding w1 w2 by (simp only: split: if_splits) auto
qed

text \<open>
  A progress report for a CANCELLED assignment puts it back to WORKING.
\<close>

theorem updateExecutionStatus_applies_witness:
  "map workStatus (jobDistributionAgents c3_db) = [COMPLETED, CANCELLED] \<and>
   map_option workStatus
     (jobDistributionAgent_findUnique ''d1'' ''a2''
        (snd (updateExecutionStatus ''d1'' ''a2'' c3_update 9 c3_db))) = Some WORKING"
  using updateExecutionStatus_applies
          [where did = "''d1''" and aid = "''a2''" and d = c3_db and st = c3_update and now = 9
             and result = "''late''" and t = None]
  by (simp add: jobDistributionAgent_findUnique_def c3_db_def ex_db_def ex_row_def c3_update_def
      int32_def pgText_def)

text \<open>
  C3 as stated fails: a result submitted for an assignment that is already CANCELLED makes
  it COMPLETED, stores the late result and restamps completedAt (6 before, 9 after).
\<close>

theorem terminal_assignment_counterexample:
  "map (\<lambda>r. (agentId r, workStatus r, executionResult r, completedAt r))
       (jobDistributionAgents c3_db) =
     [(''a1'', COMPLETED, Some ''first'', Some 5), (''a2'', CANCELLED, None, Some 6)] \<and>
   map (\<lambda>r. (agentId r, workStatus r, executionResult r, completedAt r))
       (jobDistributionAgents (snd (handleExecutionCompleted ''d1'' ''a2'' ''late'' None 9 c3_db))) =
     [(''a1'', COMPLETED, Some ''first'', Some 5), (''a2'', COMPLETED, Some ''late'', Some 9)]"
  by (simp add: handleExecutionCompleted_def updateExecutionStatus_def
      jobDistributionAgent_update_def jobDistributionAgent_findUnique_def writeData_def
      updateData_def fitsColumns_def pgText_def int32_def
      c3_db_def ex_db_def ex_row_def)

lemma find_None_map:
  "find (\<lambda>x. f x = k) xs = None \<Longrightarrow> k \<notin> set (map f xs)"
  by (induction xs) (auto split: if_splits)

lemma find_Some_holds:
  "find P xs = Some x \<Longrightarrow> P x"
  by (induction xs) (auto split: if_splits)

lemma find_append_new:
  "find P xs = None \<Longrightarrow> P y \<Longrightarrow> find P (xs @ [y]) = Some y"
  by (induction xs) (auto split: if_splits)

text \<open>
  What \<open>updateAgentPerformance\<close> leaves on record, for counters that are non-negative and
  below the largest 32-bit integer: the specification's record, except that a completion
  reporting 0 ms leaves the average as it was.
\<close>

lemma updateAgentPerformance_upserts:
  assumes "\<forall>p. agentPerformance_findUnique aid d = Some p \<longrightarrow>
             0 \<le> totalJobs p \<and> totalJobs p < 2147483647 \<and>
             0 \<le> completedJobs p \<and> completedJobs p < 2147483647 \<and>
             0 \<le> failedJobs p \<and> failedJobs p < 2147483647"
  shows "agentPerformance_findUnique aid (updateAgentPerformance aid ok t d) =
           Some ((spec_performanceAfter aid ok t (agentPerformance_findUnique aid d))
                   \<lparr> avgExecutionTime :=
                       (if t = Some 0 \<and> ok
                        then (case agentPerformance_findUnique aid d of
                                Some p \<Rightarrow> avgExecutionTime p | None \<Rightarrow> 0)
                        else avgExecutionTime
                               (spec_performanceAfter aid ok t (agentPerformance_findUnique aid d))) \<rparr>)"
proof (cases "agentPerformance_findUnique aid d")
  case None
  then have fresh: "aid \<notin> set (map perf_agentId (agentPerformances d))"
    unfolding agentPerformance_findUnique_def by (rule find_None_map)
  have nf: "find (\<lambda>p. perf_agentId p = aid) (agentPerformances d) = None"
    using None by (simp add: agentPerformance_findUnique_def)
  show ?thesis
    using None fresh find_append_new [OF nf]
    by (cases t; cases ok)
       (auto simp: updateAgentPerformance_def agentPerformance_create_def Let_def
          spec_performanceAfter_def truthyNumber_def agentPerformance_findUnique_def
          countersFit_def int32_def)
next
  case (Some cur)
  have key: "perf_agentId cur = aid"
    using Some find_Some_holds [of "\<lambda>p. perf_agentId p = aid" "agentPerformances d" cur]
    by (simp add: agentPerformance_findUnique_def)
  have bounds: "0 \<le> totalJobs cur" "totalJobs cur < 2147483647"
    "0 \<le> completedJobs cur" "completedJobs cur < 2147483647"
    "0 \<le> failedJobs cur" "failedJobs cur < 2147483647"
    using assms Some by simp_all
  have upd: "\<And>f. (\<And>p. perf_agentId (f p) = perf_agentId p) \<Longrightarrow>
      find (\<lambda>p. perf_agentId p = aid)
        (map (\<lambda>p. if perf_agentId p = aid then f p else p) (agentPerformances d)) = Some (f cur)"
    using Some find_map_update [of "\<lambda>p. perf_agentId p = aid" _ "agentPerformances d"]
    by (simp add: agentPerformance_findUnique_def)
  show ?thesis
    using Some key bounds
    by (cases t; cases ok)
       (simp_all add: updateAgentPerformance_def agentPerformance_update_def Let_def
          spec_performanceAfter_def truthyNumber_def upd countersFit_def int32_def
          agentPerformance_findUnique_def [of aid "mirrorOnAgent _ _ _ _"]
          agentPerformance_findUnique_def [of aid "_\<lparr>agentPerformances := _\<rparr>"])
qed

lemma agentPerformances_selectBestAgentAndComplete:
  "agentPerformances (snd (selectBestAgentAndComplete did strat now d)) = agentPerformances d"
  by (auto simp: selectBestAgentAndComplete_def transaction_def Let_def
      jobDistributionRecord_update_def job_update_def jobDistributionAgent_updateMany_def
      split: sum.splits option.splits prod.splits)

lemma tracker_success:
  assumes "jobDistributionAgent_findUnique did aid d = Some r"
  shows "pgText result \<Longrightarrow> (case t of Some x \<Rightarrow> int32 x | None \<Rightarrow> True) \<Longrightarrow>
         handleExecutionCompleted did aid result t now d =
           (Inr (), updateAgentPerformance aid True t
              (snd (updateExecutionStatus did aid
                 \<lparr> upd_distributionId = did, upd_agentId = aid, upd_workStatus = COMPLETED,
                   upd_progress = None, upd_executionResult = Some result,
                   upd_errorMessage = None, upd_executionTimeMs = t \<rparr> now d)))"
    and "pgText message \<Longrightarrow> (case t of Some x \<Rightarrow> int32 x | None \<Rightarrow> True) \<Longrightarrow>
         handleExecutionFailed did aid message t now d =
           (Inr (), updateAgentPerformance aid False t
              (snd (updateExecutionStatus did aid
                 \<lparr> upd_distributionId = did, upd_agentId = aid, upd_workStatus = FAILED,
                   upd_progress = None, upd_executionResult = None,
                   upd_errorMessage = Some message, upd_executionTimeMs = t \<rparr> now d)))"
    and "handleTimeout did aid now d =
           (Inr (), updateAgentPerformance aid False None
              (snd (updateExecutionStatus did aid
                 \<lparr> upd_distributionId = did, upd_agentId = aid, upd_workStatus = TIMEOUT,
                   upd_progress = None, upd_executionResult = None,
                   upd_errorMessage = Some ''Task execution timeout'',
                   upd_executionTimeMs = None \<rparr> now d)))"
  using assms
  by (simp_all add: handleExecutionCompleted_def handleExecutionFailed_def handleTimeout_def
      updateExecutionStatus_def jobDistributionAgent_update_def fitsColumns_updateData
      pgText_def)

lemma performance_after_status:
  "agentPerformance_findUnique aid (snd (updateExecutionStatus did aid' st now d)) =
   agentPerformance_findUnique aid d"
  by (simp add: agentPerformance_findUnique_def agentPerformances_updateExecutionStatus)

text \<open>
  C9, as the code has it. The agent's AgentPerformance record is upserted by the tracker's
  \<open>handleExecutionCompleted\<close>, \<open>handleExecutionFailed\<close> and \<open>handleTimeout\<close> (a timeout
  counts as a failure), whenever the status update they make on an existing assignment is
  accepted by the store (a result or message without the character U+0000, an
  executionTimeMs within the 32-bit range): afterwards the record exists, with totalJobs
  incremented by one, completedJobs incremented on a completion and failedJobs on a
  failure or timeout, and successRate = completedJobs/totalJobs, whatever executionTimeMs
  is reported; avgExecutionTime is (oldAvg*oldCompleted + newTimeMs)/newCompleted on a
  completion that reports a non-zero executionTimeMs, and is unchanged on a failure, on a
  timeout and on a completion that reports none. (The counters of an existing record are
  taken to be non-negative and below the largest 32-bit integer, so that no quotient has a
  zero divisor and every incremented counter fits its column.) A status written through
  \<open>updateExecutionStatus\<close> alone, as the status endpoint does, and the cancellation of the
  losers by winner selection do not touch AgentPerformance.
\<close>

theorem tracker_updates_performance:
  assumes "jobDistributionAgent_findUnique did aid d = Some r"
    and "pgText result" and "pgText message"
    and "case t of Some x \<Rightarrow> int32 x | None \<Rightarrow> True"
    and "\<forall>p. agentPerformance_findUnique aid d = Some p \<longrightarrow>
           0 \<le> totalJobs p \<and> totalJobs p < 2147483647 \<and>
           0 \<le> completedJobs p \<and> completedJobs p < 2147483647 \<and>
           0 \<le> failedJobs p \<and> failedJobs p < 2147483647"
  shows "(\<exists>avg. agentPerformance_findUnique aid
                  (snd (handleExecutionCompleted did aid result t now d)) =
                Some ((spec_performanceAfter aid True t (agentPerformance_findUnique aid d))
                        \<lparr>avgExecutionTime := avg\<rparr>) \<and>
                (t \<noteq> Some 0 \<longrightarrow>
                   avg = avgExecutionTime
                           (spec_performanceAfter aid True t (agentPerformance_findUnique aid d)))) \<and>
         agentPerformance_findUnique aid (snd (handleExecutionFailed did aid message t now d)) =
           Some (spec_performanceAfter aid False t (agentPerformance_findUnique aid d)) \<and>
         agentPerformance_findUnique aid (snd (handleTimeout did aid now d)) =
           Some (spec_performanceAfter aid False None (agentPerformance_findUnique aid d)) \<and>
         agentPerformances (snd (updateExecutionStatus did aid st now d)) = agentPerformances d \<and>
         agentPerformances (snd (selectBestAgentAndComplete did strat now d)) =
           agentPerformances d"
proof -
  let ?old = "agentPerformance_findUnique aid d"
  have old: "\<And>st. \<forall>p. agentPerformance_findUnique aid
                          (snd (updateExecutionStatus did aid st now d)) = Some p \<longrightarrow>
             0 \<le> totalJobs p \<and> totalJobs p < 2147483647 \<and>
             0 \<le> completedJobs p \<and> completedJobs p < 2147483647 \<and>
             0 \<le> failedJobs p \<and> failedJobs p < 2147483647"
    using assms(5) by (simp add: performance_after_status)
  have c: "agentPerformance_findUnique aid (snd (handleExecutionCompleted did aid result t now d)) =
      Some ((spec_performanceAfter aid True t ?old)
              \<lparr> avgExecutionTime :=
                  (if t = Some 0 \<and> True
                   then (case ?old of Some p \<Rightarrow> avgExecutionTime p | None \<Rightarrow> 0)
                   else avgExecutionTime (spec_performanceAfter aid True t ?old)) \<rparr>)"
    using updateAgentPerformance_upserts [where ok = True and t = t, OF old]
    by (simp add: tracker_success(1) [OF assms(1,2,4)] performance_after_status)
  have f: "agentPerformance_findUnique aid (snd (handleExecutionFailed did aid message t now d)) =
      Some (spec_performanceAfter aid False t ?old)"
    using updateAgentPerformance_upserts [where ok = False and t = t, OF old]
    by (simp add: tracker_success(2) [OF assms(1,3,4)] performance_after_status)
  have o: "agentPerformance_findUnique aid (snd (handleTimeout did aid now d)) =
      Some (spec_performanceAfter aid False None ?old)"
    using updateAgentPerformance_upserts [where ok = False and t = None, OF old]
    by (simp add: tracker_success(3) [OF assms(1)] performance_after_status)
  have c': "\<exists>avg. agentPerformance_findUnique aid
                  (snd (handleExecutionCompleted did aid result t now d)) =
                Some ((spec_performanceAfter aid True t ?old)\<lparr>avgExecutionTime := avg\<rparr>) \<and>
                (t \<noteq> Some 0 \<longrightarrow> avg = avgExecutionTime (spec_performanceAfter aid True t ?old))"
    unfolding c by (intro exI conjI impI, rule refl) simp
  show ?thesis
    using c' f o agentPerformances_updateExecutionStatus
      agentPerformances_selectBestAgentAndComplete
    by (intro conjI) simp_all
qed

text \<open>
  Agent a2 has three jobs on record, two completed in 1000 ms on average; a completion
  in 1600 ms makes it four jobs, three completed, 1200 ms on average, success rate 3/4.
\<close>

theorem tracker_updates_performance_witness:
  "jobDistributionAgent_findUnique ''d1'' ''a2'' c9_history_db \<noteq> None \<and>
   pgText ''done'' \<and> pgText ''crashed'' \<and> int32 1600 \<and> Some (1600::int) \<noteq> Some 0 \<and>
   agentPerformance_findUnique ''a2'' c9_history_db =
     Some \<lparr> perf_agentId = ''a2'', totalJobs = 3, completedJobs = 2, failedJobs = 1,
            avgExecutionTime = 1000, perf_successRate = 2 / 3 \<rparr> \<and>
   agentPerformance_findUnique ''a2''
     (snd (handleExecutionCompleted ''d1'' ''a2'' ''done'' (Some 1600) 9 c9_history_db)) =
     Some \<lparr> perf_agentId = ''a2'', totalJobs = 4, completedJobs = 3, failedJobs = 1,
            avgExecutionTime = 1200, perf_successRate = 3 / 4 \<rparr> \<and>
   agentPerformance_findUnique ''a2''
     (snd (handleTimeout ''d1'' ''a2'' 9 c9_history_db)) =
     Some \<lparr> perf_agentId = ''a2'', totalJobs = 4, completedJobs = 2, failedJobs = 2,
            avgExecutionTime = 1000, perf_successRate = 2 / 4 \<rparr>"
proof -
  have h1: "jobDistributionAgent_findUnique ''d1'' ''a2'' c9_history_db =
      Some (ex_row ''a2'' WORKING None None None)"
    by (simp add: jobDistributionAgent_findUnique_def c9_history_db_def c9_db_def ex_db_def
        ex_row_def)
  have h2: "pgText ''done''" "pgText ''crashed''"
    by (simp_all add: pgText_def)
  have h3: "case Some (1600::int) of Some x \<Rightarrow> int32 x | None \<Rightarrow> True"
    by (simp add: int32_def)
  have h4: "agentPerformance_findUnique ''a2'' c9_history_db =
      Some \<lparr> perf_agentId = ''a2'', totalJobs = 3, completedJobs = 2, failedJobs = 1,
             avgExecutionTime = 1000, perf_successRate = 2 / 3 \<rparr>"
    by (simp add: agentPerformance_findUnique_def c9_history_db_def c9_db_def ex_db_def)
  have h5: "\<forall>p. agentPerformance_findUnique ''a2'' c9_history_db = Some p \<longrightarrow>
      0 \<le> totalJobs p \<and> totalJobs p < 2147483647 \<and>
      0 \<le> completedJobs p \<and> completedJobs p < 2147483647 \<and>
      0 \<le> failedJobs p \<and> failedJobs p < 2147483647"
    unfolding h4 by simp
  show ?thesis
    using h1 h2 h4 tracker_updates_performance [OF h1 h2 h3 h5, of 9]
    by (auto simp: spec_performanceAfter_def int32_def)
qed

text \<open>
  C9 as stated fails for CANCELLED: winner selection moves the WORKING assignment of agent
  a2 to CANCELLED, and no AgentPerformance record is written for a2.
\<close>

theorem cancelled_performance_counterexample:
  "map (\<lambda>r. (agentId r, workStatus r)) (jobDistributionAgents c9_db) =
     [(''a1'', COMPLETED), (''a2'', WORKING)] \<and>
   map (\<lambda>r. (agentId r, workStatus r))
       (jobDistributionAgents (snd (selectBestAgentAndComplete ''d1'' first_completed 9 c9_db))) =
     [(''a1'', COMPLETED), (''a2'', CANCELLED)] \<and>
   agentPerformance_findUnique ''a2''
     (snd (selectBestAgentAndComplete ''d1'' first_completed 9 c9_db)) = None"
  by (simp add: selectBestAgentAndComplete_def getDistributionDetail_def joinAgent_def
      agent_findUnique_def jobDistributionRecord_findUnique_def toExecutionResult_def
      selectAgent_def transaction_def jobDistributionRecord_update_def job_update_def
      job_findUnique_def jobDistributionAgent_updateMany_def agentPerformance_findUnique_def
      assignedAgents_def cancelData_def
      truthyString_def truthyNumber_def
      c9_db_def ex_db_def ex_row_def ex_agent_def ex_record_def ex_job_def)

section \<open>Opening a distribution\<close>

lemma find_Some_mem:
  "find P xs = Some x \<Longrightarrow> x \<in> set xs"
  by (induction xs) (auto split: if_splits)

lemma createDistributionRecord_missing:
  assumes "job_findUnique jid d = None"
  shows "createDistributionRecord jid ags newId now d = (Inl NotFound, d)"
  using assms by (simp add: createDistributionRecord_def)

lemma createMany_newAssignments:
  assumes "newId \<in> set (map dr_id (jobDistributionRecords d1))"
  shows "jobDistributionAgent_createMany (map (newAssignment newId now) ags) d1 =
     (if \<not> distinct (map agent_id ags) \<or>
         (\<exists>a \<in> set ags. (newId, agent_id a) \<in> set (map assignmentKey (jobDistributionAgents d1)))
      then Inl (Persistence UniqueConstraintFailed)
      else if \<exists>a \<in> set ags. agent_id a \<notin> set (map agent_id (agents d1))
      then Inl (Persistence ForeignKeyConstraintFailed)
      else Inr (d1\<lparr>jobDistributionAgents :=
                     jobDistributionAgents d1 @ map (newAssignment newId now) ags\<rparr>))"
proof -
  have k: "map assignmentKey (map (newAssignment newId now) ags) = map (\<lambda>a. (newId, agent_id a)) ags"
    by (simp add: assignmentKey_def newAssignment_def)
  have dist: "distinct (map (\<lambda>a. (newId, agent_id a)) ags) = distinct (map agent_id ags)"
    by (simp add: distinct_map inj_on_def)
  have u: "(\<exists>r \<in> set (map (newAssignment newId now) ags).
              assignmentKey r \<in> set (map assignmentKey (jobDistributionAgents d1))) =
           (\<exists>a \<in> set ags. (newId, agent_id a) \<in> set (map assignmentKey (jobDistributionAgents d1)))"
    by (auto simp: assignmentKey_def newAssignment_def)
  have f: "(\<exists>r \<in> set (map (newAssignment newId now) ags).
              jobDistributionId r \<notin> set (map dr_id (jobDistributionRecords d1)) \<or>
              agentId r \<notin> set (map agent_id (agents d1))) =
           (\<exists>a \<in> set ags. agent_id a \<notin> set (map agent_id (agents d1)))"
    using assms by (auto simp: newAssignment_def)
  show ?thesis
    unfolding jobDistributionAgent_createMany_def k dist u f by simp
qed

lemma createDistributionRecord_found:
  assumes "job_findUnique jid d = Some job"
  shows "createDistributionRecord jid ags newId now d =
     (let record = \<lparr> dr_id = newId, jobId = jid, jobName = jobTitle job,
                      matchCriteria = \<lparr> mc_tags = job_tags job, mc_category = category job,
                           mc_skillLevel = skillLevel job,
                           mc_maxBudget = truthyNumber (maxBudget job),
                           mc_autoAcceptJobs = True, mc_isActive = True \<rparr>,
                      totalAgents = int (length ags), assignedCount = int (length ags),
                      responseCount = 0, assignedAgentId = None, assignedAgentName = None \<rparr>
      in if newId \<in> set (map dr_id (jobDistributionRecords d)) \<or>
            jid \<in> set (map jobId (jobDistributionRecords d)) \<or>
            \<not> distinct (map agent_id ags) \<or>
            (\<exists>a \<in> set ags. (newId, agent_id a) \<in> set (map assignmentKey (jobDistributionAgents d)))
         then (Inl (Persistence UniqueConstraintFailed), d)
         else if \<exists>a \<in> set ags. agent_id a \<notin> set (map agent_id (agents d))
         then (Inl (Persistence ForeignKeyConstraintFailed), d)
         else (Inr record,
               d\<lparr> jobDistributionRecords := jobDistributionRecords d @ [record],
                  jobDistributionAgents :=
                    jobDistributionAgents d @ map (newAssignment newId now) ags,
                  jobs := map (\<lambda>j. if job_id j = jid then j\<lparr>status := DISTRIBUTED\<rparr> else j)
                              (jobs d) \<rparr>))"
proof -
  let ?rcd = "\<lparr> dr_id = newId, jobId = jid, jobName = jobTitle job,
                      matchCriteria = \<lparr> mc_tags = job_tags job, mc_category = category job,
                           mc_skillLevel = skillLevel job,
                           mc_maxBudget = truthyNumber (maxBudget job),
                           mc_autoAcceptJobs = True, mc_isActive = True \<rparr>,
                      totalAgents = int (length ags), assignedCount = int (length ags),
                      responseCount = 0, assignedAgentId = None, assignedAgentName = None \<rparr>"
  let ?d1 = "d\<lparr>jobDistributionRecords := jobDistributionRecords d @ [?rcd]\<rparr>"
  let ?d2 = "?d1\<lparr>jobDistributionAgents :=
                     jobDistributionAgents ?d1 @ map (newAssignment newId now) ags\<rparr>"
  have j: "jid \<in> set (map job_id (jobs d))"
    using assms find_Some_mem [of "\<lambda>j. job_id j = jid" "jobs d" job]
      find_Some_holds [of "\<lambda>j. job_id j = jid" "jobs d" job]
    by (auto simp: job_findUnique_def)
  have rc: "jobDistributionRecord_create ?rcd d =
      (if newId \<in> set (map dr_id (jobDistributionRecords d)) \<or>
          jid \<in> set (map jobId (jobDistributionRecords d))
       then Inl (Persistence UniqueConstraintFailed) else Inr ?d1)"
    using j by (simp add: jobDistributionRecord_create_def)
  have n: "newId \<in> set (map dr_id (jobDistributionRecords ?d1))"
    by simp
  have cm: "jobDistributionAgent_createMany (map (newAssignment newId now) ags) ?d1 =
     (if \<not> distinct (map agent_id ags) \<or>
         (\<exists>a \<in> set ags. (newId, agent_id a) \<in> set (map assignmentKey (jobDistributionAgents d)))
      then Inl (Persistence UniqueConstraintFailed)
      else if \<exists>a \<in> set ags. agent_id a \<notin> set (map agent_id (agents d))
      then Inl (Persistence ForeignKeyConstraintFailed)
      else Inr ?d2)"
    using createMany_newAssignments [OF n, of now ags] by simp
  have ju: "job_update jid (\<lambda>j. j\<lparr>status := DISTRIBUTED\<rparr>) ?d2 =
      Inr (?d2\<lparr>jobs := map (\<lambda>j. if job_id j = jid then j\<lparr>status := DISTRIBUTED\<rparr> else j)
                              (jobs d)\<rparr>)"
    using assms by (simp add: job_update_def job_findUnique_def)
  have "createDistributionRecord jid ags newId now d =
      transaction (\<lambda>tx.
               case jobDistributionRecord_create ?rcd tx of
                 Inl e \<Rightarrow> Inl e
               | Inr tx1 \<Rightarrow>
                  (case jobDistributionAgent_createMany
                          (map (newAssignment newId now) ags) tx1 of
                     Inl e \<Rightarrow> Inl e
                   | Inr tx2 \<Rightarrow>
                      (case job_update jid (\<lambda>j. j\<lparr>status := DISTRIBUTED\<rparr>) tx2 of
                         Inl e \<Rightarrow> Inl e
                       | Inr tx3 \<Rightarrow> Inr (?rcd, tx3)))) d"
    using assms by (simp add: createDistributionRecord_def Let_def cong: sum.case_cong)
  also have "\<dots> = (if newId \<in> set (map dr_id (jobDistributionRecords d)) \<or>
            jid \<in> set (map jobId (jobDistributionRecords d)) \<or>
            \<not> distinct (map agent_id ags) \<or>
            (\<exists>a \<in> set ags. (newId, agent_id a) \<in> set (map assignmentKey (jobDistributionAgents d)))
         then (Inl (Persistence UniqueConstraintFailed), d)
         else if \<exists>a \<in> set ags. agent_id a \<notin> set (map agent_id (agents d))
         then (Inl (Persistence ForeignKeyConstraintFailed), d)
         else (Inr ?rcd,
               d\<lparr> jobDistributionRecords := jobDistributionRecords d @ [?rcd],
                  jobDistributionAgents :=
                    jobDistributionAgents d @ map (newAssignment newId now) ags,
                  jobs := map (\<lambda>j. if job_id j = jid then j\<lparr>status := DISTRIBUTED\<rparr> else j)
                              (jobs d) \<rparr>))"
    unfolding transaction_def rc
    by (simp only: cm ju sum.case if_distrib [of "case_sum _ _"] split: if_splits) auto
  finally show ?thesis
    by (simp only: Let_def)
qed

text \<open>
  C1, as the code has it. On a store that respects its foreign keys, opening a
  distribution has three outcomes. It fails with NotFound exactly when the job does not
  exist; it fails with a constraint violation of the store when the job already has a
  distribution record, when the generated id is already taken, when an agent is listed
  twice, or when a listed agent is unknown; in both cases the store is unchanged.
  Otherwise (and in every case where none of these holds) it commits together: one new
  DistributionRecord, the only one of the job, with totalAgents = assignedCount = the length
  of the agent list, responseCount = 0 and no winner; one assignment per listed agent, in
  list order, each ASSIGNED; and the job's status DISTRIBUTED. The number of assignment
  rows of the new distribution then equals totalAgents and assignedCount.
\<close>

theorem createDistributionRecord_outcomes:
  assumes "referentialIntegrity d"
  shows "(case createDistributionRecord jid ags newId now d of
            (Inl e, d') \<Rightarrow>
              d' = d \<and>
              (e = NotFound \<or> e = Persistence UniqueConstraintFailed \<or>
               e = Persistence ForeignKeyConstraintFailed) \<and>
              (e = NotFound \<longleftrightarrow> job_findUnique jid d = None)
          | (Inr record, d') \<Rightarrow>
              jobDistributionRecords d' = jobDistributionRecords d @ [record] \<and>
              filter (\<lambda>r. jobId r = jid) (jobDistributionRecords d') = [record] \<and>
              dr_id record = newId \<and> jobId record = jid \<and>
              totalAgents record = int (length ags) \<and>
              assignedCount record = int (length ags) \<and>
              responseCount record = 0 \<and>
              assignedAgentId record = None \<and> assignedAgentName record = None \<and>
              jobDistributionAgents d' =
                jobDistributionAgents d @ map (newAssignment newId now) ags \<and>
              filter (\<lambda>r. jobDistributionId r = newId) (jobDistributionAgents d') =
                map (newAssignment newId now) ags \<and>
              map agentId (filter (\<lambda>r. jobDistributionId r = newId) (jobDistributionAgents d')) =
                map agent_id ags \<and>
              (\<forall>r \<in> set (filter (\<lambda>r. jobDistributionId r = newId) (jobDistributionAgents d')).
                 workStatus r = ASSIGNED) \<and>
              int (length (filter (\<lambda>r. jobDistributionId r = newId) (jobDistributionAgents d'))) =
                totalAgents record \<and>
              jobs d' = map (\<lambda>j. if job_id j = jid then j\<lparr>status := DISTRIBUTED\<rparr> else j) (jobs d) \<and>
              map_option status (job_findUnique jid d') = Some DISTRIBUTED \<and>
              agents d' = agents d \<and> executionLogs d' = executionLogs d \<and>
              agentPerformances d' = agentPerformances d) \<and>
         ((\<exists>record. fst (createDistributionRecord jid ags newId now d) = Inr record) \<longleftrightarrow>
            job_findUnique jid d \<noteq> None \<and>
            newId \<notin> set (map dr_id (jobDistributionRecords d)) \<and>
            jid \<notin> set (map jobId (jobDistributionRecords d)) \<and>
            distinct (map agent_id ags) \<and>
            (\<forall>a \<in> set ags. agent_id a \<in> set (map agent_id (agents d))))"
proof (cases "job_findUnique jid d")
  case None
  then show ?thesis
    by (simp add: createDistributionRecord_missing)
next
  case (Some job)
  let ?rcd = "\<lparr> dr_id = newId, jobId = jid, jobName = jobTitle job,
                      matchCriteria = \<lparr> mc_tags = job_tags job, mc_category = category job,
                           mc_skillLevel = skillLevel job,
                           mc_maxBudget = truthyNumber (maxBudget job),
                           mc_autoAcceptJobs = True, mc_isActive = True \<rparr>,
                      totalAgents = int (length ags), assignedCount = int (length ags),
                      responseCount = 0, assignedAgentId = None, assignedAgentName = None \<rparr>"
  let ?new = "map (newAssignment newId now) ags"
  let ?U = "newId \<in> set (map dr_id (jobDistributionRecords d)) \<or>
            jid \<in> set (map jobId (jobDistributionRecords d)) \<or>
            \<not> distinct (map agent_id ags) \<or>
            (\<exists>a \<in> set ags. (newId, agent_id a) \<in> set (map assignmentKey (jobDistributionAgents d)))"
  let ?F = "\<exists>a \<in> set ags. agent_id a \<notin> set (map agent_id (agents d))"
  note eq = createDistributionRecord_found [OF Some, of ags newId now, unfolded Let_def]
  have orphan: "newId \<notin> set (map dr_id (jobDistributionRecords d)) \<Longrightarrow>
      \<forall>r \<in> set (jobDistributionAgents d). jobDistributionId r \<noteq> newId"
    using assms by (auto simp: referentialIntegrity_def)
  have nokey: "newId \<notin> set (map dr_id (jobDistributionRecords d)) \<Longrightarrow>
      \<not> (\<exists>a \<in> set ags. (newId, agent_id a) \<in> set (map assignmentKey (jobDistributionAgents d)))"
    using orphan by (auto simp: assignmentKey_def)
  show ?thesis
  proof (cases ?U)
    case True
    then have "createDistributionRecord jid ags newId now d =
        (Inl (Persistence UniqueConstraintFailed), d)"
      using eq by simp
    then show ?thesis
      using Some True nokey by auto
  next
    case notU: False
    show ?thesis
    proof (cases ?F)
      case True
      then have "createDistributionRecord jid ags newId now d =
          (Inl (Persistence ForeignKeyConstraintFailed), d)"
        using eq notU by simp
      then show ?thesis
        using Some True by auto
    next
      case False
      define rcd where "rcd = ?rcd"
      define d' where "d' = d\<lparr> jobDistributionRecords := jobDistributionRecords d @ [rcd],
                  jobDistributionAgents := jobDistributionAgents d @ ?new,
                  jobs := map (\<lambda>j. if job_id j = jid then j\<lparr>status := DISTRIBUTED\<rparr> else j)
                              (jobs d) \<rparr>"
      have res: "createDistributionRecord jid ags newId now d = (Inr rcd, d')"
        using eq notU False by (simp add: rcd_def d'_def)
      have p1: "jobDistributionRecords d' = jobDistributionRecords d @ [rcd]"
        by (simp add: d'_def)
      have p2: "filter (\<lambda>r. jobId r = jid) (jobDistributionRecords d') = [rcd]"
        using notU by (auto simp: d'_def rcd_def filter_empty_conv)
      have p3: "dr_id rcd = newId" "jobId rcd = jid" "totalAgents rcd = int (length ags)"
        "assignedCount rcd = int (length ags)" "responseCount rcd = 0"
        "assignedAgentId rcd = None" "assignedAgentName rcd = None"
        by (simp_all add: rcd_def)
      have p4: "jobDistributionAgents d' = jobDistributionAgents d @ ?new"
        by (simp add: d'_def)
      have old: "filter (\<lambda>r. jobDistributionId r = newId) (jobDistributionAgents d) = []"
        using notU orphan by (auto simp: filter_empty_conv)
      have p5: "filter (\<lambda>r. jobDistributionId r = newId) (jobDistributionAgents d') = ?new"
        using old by (simp add: d'_def newAssignment_def)
      have p6: "map agentId (filter (\<lambda>r. jobDistributionId r = newId) (jobDistributionAgents d')) =
          map agent_id ags"
        unfolding p5 by (simp add: newAssignment_def)
      have p7: "\<forall>r \<in> set (filter (\<lambda>r. jobDistributionId r = newId) (jobDistributionAgents d')).
          workStatus r = ASSIGNED"
        unfolding p5 by (simp add: newAssignment_def)
      have p8: "int (length (filter (\<lambda>r. jobDistributionId r = newId) (jobDistributionAgents d'))) =
          totalAgents rcd"
        unfolding p5 by (simp add: rcd_def)
      have p9: "jobs d' = map (\<lambda>j. if job_id j = jid then j\<lparr>status := DISTRIBUTED\<rparr> else j) (jobs d)"
        by (simp add: d'_def)
      have p10: "map_option status (job_findUnique jid d') = Some DISTRIBUTED"
        using Some find_map_update [of "\<lambda>j. job_id j = jid" "\<lambda>j. j\<lparr>status := DISTRIBUTED\<rparr>" "jobs d"]
        by (simp add: job_findUnique_def d'_def)
      have p11: "agents d' = agents d" "executionLogs d' = executionLogs d"
        "agentPerformances d' = agentPerformances d"
        by (simp_all add: d'_def)
      have p12: "(\<exists>record. fst (Inr rcd :: error + JobDistributionRecord, d') = Inr record) \<longleftrightarrow>
            job_findUnique jid d \<noteq> None \<and>
            newId \<notin> set (map dr_id (jobDistributionRecords d)) \<and>
            jid \<notin> set (map jobId (jobDistributionRecords d)) \<and>
            distinct (map agent_id ags) \<and>
            (\<forall>a \<in> set ags. agent_id a \<in> set (map agent_id (agents d)))"
        using Some notU False by auto
      show ?thesis
        unfolding res prod.case sum.case
        by (intro conjI) (rule p1 p2 p3 p4 p5 p6 p7 p8 p9 p10 p11 p12)+
    qed
  qed
qed

theorem createDistributionRecord_outcomes_witness:
  "referentialIntegrity c1_db \<and>
   (\<exists>record d'.
      createDistributionRecord ''j1'' [ex_agent ''a1'' ''Ada'', ex_agent ''a2'' ''Bob''] ''d1'' 3 c1_db =
        (Inr record, d') \<and>
      totalAgents record = 2 \<and> assignedCount record = 2 \<and> responseCount record = 0 \<and>
      map (\<lambda>r. (jobDistributionId r, agentId r, workStatus r)) (jobDistributionAgents d') =
        [(''d1'', ''a1'', ASSIGNED), (''d1'', ''a2'', ASSIGNED)] \<and>
      map status (jobs d') = [DISTRIBUTED])"
proof -
  have h: "referentialIntegrity c1_db"
    by (simp add: referentialIntegrity_def c1_db_def)
  have ok: "job_findUnique ''j1'' c1_db \<noteq> None \<and>
      ''d1'' \<notin> set (map dr_id (jobDistributionRecords c1_db)) \<and>
      ''j1'' \<notin> set (map jobId (jobDistributionRecords c1_db)) \<and>
      distinct (map agent_id [ex_agent ''a1'' ''Ada'', ex_agent ''a2'' ''Bob'']) \<and>
      (\<forall>a \<in> set [ex_agent ''a1'' ''Ada'', ex_agent ''a2'' ''Bob''].
         agent_id a \<in> set (map agent_id (agents c1_db)))"
    by (simp add: job_findUnique_def c1_db_def ex_job_def ex_agent_def)
  note t = createDistributionRecord_outcomes [OF h, where jid = "''j1''" and
      ags = "[ex_agent ''a1'' ''Ada'', ex_agent ''a2'' ''Bob'']" and newId = "''d1''" and now = 3]
  obtain rcd where r: "fst (createDistributionRecord ''j1''
      [ex_agent ''a1'' ''Ada'', ex_agent ''a2'' ''Bob''] ''d1'' 3 c1_db) = Inr rcd"
    using t ok by blast
  obtain d' where d': "createDistributionRecord ''j1''
      [ex_agent ''a1'' ''Ada'', ex_agent ''a2'' ''Bob''] ''d1'' 3 c1_db = (Inr rcd, d')"
    using r by (cases "createDistributionRecord ''j1''
      [ex_agent ''a1'' ''Ada'', ex_agent ''a2'' ''Bob''] ''d1'' 3 c1_db") simp
  show ?thesis
    using h t d'
    by (simp add: newAssignment_def c1_db_def ex_agent_def ex_job_def)
qed

text \<open>
  C1 as stated fails: opening a second distribution for a job that already has one (the
  manual trigger does this for any job in status DISTRIBUTED) fails, not with NotFound --
  the job exists -- but with the store's uniqueness violation on \<open>jobId\<close>, and nothing is
  created.
\<close>

theorem createDistributionRecord_counterexample:
  "job_findUnique ''j1'' (ex_db []) = Some ex_job \<and>
   createDistributionRecord ''j1'' [ex_agent ''a1'' ''Ada''] ''d2'' 3 (ex_db []) =
     (Inl (Persistence UniqueConstraintFailed), ex_db [])"
  by (simp add: createDistributionRecord_def transaction_def jobDistributionRecord_create_def
      job_findUnique_def ex_db_def ex_job_def ex_record_def)

section \<open>Winner selection\<close>

lemma those_map_Some:
  "(\<forall>x \<in> set xs. f x \<noteq> None) \<Longrightarrow> those (map f xs) = Some (map (the \<circ> f) xs)"
  by (induction xs) auto

lemma those_map_None:
  "(\<exists>x \<in> set xs. f x = None) \<Longrightarrow> those (map f xs) = None"
  by (induction xs) (auto split: option.splits)

lemma find_None_key:
  "find (\<lambda>x. f x = k) xs = None \<longleftrightarrow> k \<notin> set (map f xs)"
  by (induction xs) auto

lemma selectAgent_member:
  assumes "xs \<noteq> []"
  shows "\<exists>e. selectAgent strat xs = Some e \<and> e \<in> set xs"
proof (cases strat)
  case first_completed
  obtain y ys where s: "sort_key completedAtTime xs = y # ys"
    using sort_key_nonempty [OF assms] by blast
  show ?thesis
    using first_completed s sort_key_first(1) [OF s] by (simp add: selectAgent_def)
next
  case best_scored
  obtain y ys where s: "sort_key (\<lambda>a. - calculateResultScore a) xs = y # ys"
    using sort_key_nonempty [OF assms] by blast
  show ?thesis
    using best_scored s sort_key_first(1) [OF s] by (simp add: selectAgent_def)
qed

text \<open>
  The executions that \<open>getDistributionDetail\<close> hands to the selector when every join
  succeeds, and the COMPLETED ones among them.
\<close>

lemma getDistributionDetail_executions:
  assumes "jobDistributionRecord_findUnique did d = Some r"
  shows "getDistributionDetail did d =
     (if \<exists>x \<in> set (assignedAgents did d). agent_findUnique (agentId x) d = None
      then Inl TypeError
      else Inr (Some \<lparr> dd_id = dr_id r, dd_jobId = jobId r, dd_jobName = jobName r,
                        dd_totalAgents = totalAgents r, dd_assignedCount = assignedCount r,
                        dd_responseCount = responseCount r,
                        dd_assignedAgentId = truthyString (assignedAgentId r),
                        dd_assignedAgentName = truthyString (assignedAgentName r),
                        agentExecutions = map (the \<circ> joinAgent d) (assignedAgents did d) \<rparr>))"
proof (cases "\<exists>x \<in> set (assignedAgents did d). agent_findUnique (agentId x) d = None")
  case True
  then have "\<exists>x \<in> set (assignedAgents did d). joinAgent d x = None"
    by (simp add: joinAgent_def)
  then have "those (map (joinAgent d) (assignedAgents did d)) = None"
    by (rule those_map_None)
  then show ?thesis
    using assms True by (simp add: getDistributionDetail_def)
next
  case False
  then have "\<forall>x \<in> set (assignedAgents did d). joinAgent d x \<noteq> None"
    by (simp add: joinAgent_def)
  then have "those (map (joinAgent d) (assignedAgents did d)) =
      Some (map (the \<circ> joinAgent d) (assignedAgents did d))"
    by (rule those_map_Some)
  then show ?thesis
    using assms False by (simp add: getDistributionDetail_def)
qed

lemma selectBestAgentAndComplete_cases:
  assumes "jobDistributionRecord_findUnique did d = Some r"
  shows "selectBestAgentAndComplete did strat now d =
     (if \<exists>x \<in> set (assignedAgents did d). agent_findUnique (agentId x) d = None
      then (Inl TypeError, d)
      else if filter (\<lambda>e. res_workStatus e = COMPLETED)
                     (map (the \<circ> joinAgent d) (assignedAgents did d)) = []
      then (Inr (), d)
      else
        (case selectAgent strat (filter (\<lambda>e. res_workStatus e = COMPLETED)
                                        (map (the \<circ> joinAgent d) (assignedAgents did d))) of
           None \<Rightarrow> (Inl TypeError, d)
         | Some e \<Rightarrow>
             if job_findUnique (jobId r) d = None
             then (Inl (Persistence RecordNotFound), d)
             else (Inr (),
                   d\<lparr> jobDistributionRecords :=
                        map (\<lambda>x. if dr_id x = did
                                  then x\<lparr>assignedAgentId := Some (res_agentId e),
                                         assignedAgentName := Some (res_agentName e)\<rparr>
                                  else x) (jobDistributionRecords d),
                      jobs := map (\<lambda>j. if job_id j = jobId r then j\<lparr>status := JOB_COMPLETED\<rparr> else j)
                                  (jobs d),
                      jobDistributionAgents :=
                        map (\<lambda>x. if jobDistributionId x = did \<and> agentId x \<noteq> res_agentId e \<and>
                                     workStatus x \<in> set [ASSIGNED, WORKING]
                                  then cancelData now x else x) (jobDistributionAgents d) \<rparr>)))"
  using assms
  by (auto simp: selectBestAgentAndComplete_def getDistributionDetail_executions [OF assms]
      transaction_def jobDistributionRecord_update_def job_update_def job_findUnique_def
      jobDistributionRecord_findUnique_def jobDistributionAgent_updateMany_def
      split: option.splits)
lemma joined_execution:
  assumes "agent_findUnique (agentId x) d = Some a"
  shows "(the \<circ> joinAgent d) x = toExecutionResult x a"
  using assms by (simp add: joinAgent_def)

lemma joined_fields:
  assumes "agent_findUnique (agentId x) d \<noteq> None"
  shows "res_workStatus ((the \<circ> joinAgent d) x) = workStatus x"
    and "res_agentId ((the \<circ> joinAgent d) x) = agentId x"
    and "res_completedAt ((the \<circ> joinAgent d) x) = completedAt x"
    and "Some (res_agentName ((the \<circ> joinAgent d) x)) =
           map_option agentName (agent_findUnique (agentId x) d)"
  using assms by (auto simp: joinAgent_def toExecutionResult_def)

lemma completed_executions:
  assumes "\<forall>x \<in> set xs. agent_findUnique (agentId x) d \<noteq> None"
  shows "filter (\<lambda>e. res_workStatus e = COMPLETED) (map (the \<circ> joinAgent d) xs) =
         map (the \<circ> joinAgent d) (filter (\<lambda>x. workStatus x = COMPLETED) xs)"
  using assms
proof (induction xs)
  case Nil
  then show ?case by simp
next
  case (Cons x xs)
  then show ?case
    using joined_fields(1) [of x d] by simp
qed

lemma integrity_agents:
  assumes "referentialIntegrity d"
  shows "\<forall>x \<in> set (assignedAgents did d). agent_findUnique (agentId x) d \<noteq> None"
  using assms
  by (auto simp: referentialIntegrity_def assignedAgents_def agent_findUnique_def find_None_key)

lemma integrity_job:
  assumes "referentialIntegrity d" and "jobDistributionRecord_findUnique did d = Some r"
  shows "job_findUnique (jobId r) d \<noteq> None"
proof -
  have "r \<in> set (jobDistributionRecords d)"
    using assms(2) find_Some_mem [of "\<lambda>r. dr_id r = did" "jobDistributionRecords d" r]
    by (simp add: jobDistributionRecord_findUnique_def)
  then have "jobId r \<in> set (map job_id (jobs d))"
    using assms(1) by (simp add: referentialIntegrity_def)
  then show ?thesis
    by (simp add: job_findUnique_def find_None_key)
qed

text \<open>
  The run of winner selection on a store that respects its foreign keys, for a
  distribution with a COMPLETED assignment: it returns normally, and the execution it
  selects is the join of one of the COMPLETED assignments.
\<close>

lemma selectBestAgentAndComplete_run:
  assumes ri: "referentialIntegrity d"
    and rec: "jobDistributionRecord_findUnique did d = Some r"
    and some: "\<exists>x \<in> set (jobDistributionAgents d). jobDistributionId x = did \<and> workStatus x = COMPLETED"
  shows "\<exists>e. selectAgent strat (map (the \<circ> joinAgent d)
                  (filter (\<lambda>x. workStatus x = COMPLETED) (assignedAgents did d))) = Some e \<and>
             selectBestAgentAndComplete did strat now d =
               (Inr (),
                d\<lparr> jobDistributionRecords :=
                     map (\<lambda>x. if dr_id x = did
                               then x\<lparr>assignedAgentId := Some (res_agentId e),
                                      assignedAgentName := Some (res_agentName e)\<rparr>
                               else x) (jobDistributionRecords d),
                   jobs := map (\<lambda>j. if job_id j = jobId r then j\<lparr>status := JOB_COMPLETED\<rparr> else j)
                               (jobs d),
                   jobDistributionAgents :=
                     map (\<lambda>x. if jobDistributionId x = did \<and> agentId x \<noteq> res_agentId e \<and>
                                  workStatus x \<in> set [ASSIGNED, WORKING]
                               then cancelData now x else x) (jobDistributionAgents d) \<rparr>)"
proof -
  let ?crows = "filter (\<lambda>x. workStatus x = COMPLETED) (assignedAgents did d)"
  have nm: "\<forall>x \<in> set (assignedAgents did d). agent_findUnique (agentId x) d \<noteq> None"
    by (rule integrity_agents [OF ri])
  have c: "filter (\<lambda>e. res_workStatus e = COMPLETED)
             (map (the \<circ> joinAgent d) (assignedAgents did d)) = map (the \<circ> joinAgent d) ?crows"
    by (rule completed_executions [OF nm])
  have ne: "map (the \<circ> joinAgent d) ?crows \<noteq> []"
    using some by (auto simp: assignedAgents_def filter_empty_conv)
  obtain e where e: "selectAgent strat (map (the \<circ> joinAgent d) ?crows) = Some e"
    using selectAgent_member [OF ne] by blast
  have j: "job_findUnique (jobId r) d \<noteq> None"
    by (rule integrity_job [OF ri rec])
  show ?thesis
    using nm ne e j
    by (simp add: selectBestAgentAndComplete_cases [OF rec] c)
qed
text \<open>
  C2. On a store that respects its foreign keys, for every distribution with at least one
  COMPLETED assignment and either strategy, winner selection returns normally and picks a
  COMPLETED assignment w of the distribution: the DistributionRecord then carries w's
  agent id and that agent's name, the Job's status is COMPLETED, every other assignment
  of the distribution that was ASSIGNED or WORKING is CANCELLED with the message
  'Task completed by another agent' and completedAt = now, and every other row -- the
  assignments already COMPLETED, FAILED, TIMEOUT or CANCELLED, the winner's, and those of
  other distributions -- is unchanged.
\<close>

theorem selectBestAgentAndComplete_effect:
  assumes "referentialIntegrity d"
    and "jobDistributionRecord_findUnique did d = Some r"
    and "\<exists>x \<in> set (jobDistributionAgents d). jobDistributionId x = did \<and> workStatus x = COMPLETED"
  shows "\<exists>w \<in> set (jobDistributionAgents d).
           jobDistributionId w = did \<and> workStatus w = COMPLETED \<and>
           fst (selectBestAgentAndComplete did strat now d) = Inr () \<and>
           jobDistributionRecord_findUnique did (snd (selectBestAgentAndComplete did strat now d)) =
             Some (r\<lparr>assignedAgentId := Some (agentId w),
                     assignedAgentName := map_option agentName (agent_findUnique (agentId w) d)\<rparr>) \<and>
           map_option status (job_findUnique (jobId r) (snd (selectBestAgentAndComplete did strat now d))) =
             Some JOB_COMPLETED \<and>
           jobDistributionAgents (snd (selectBestAgentAndComplete did strat now d)) =
             map (\<lambda>x. if jobDistributionId x = did \<and> agentId x \<noteq> agentId w \<and>
                          (workStatus x = ASSIGNED \<or> workStatus x = WORKING)
                       then x\<lparr>workStatus := CANCELLED, completedAt := Some now,
                              errorMessage := Some ''Task completed by another agent''\<rparr>
                       else x) (jobDistributionAgents d) \<and>
           (\<forall>i < length (jobDistributionAgents d).
              workStatus (jobDistributionAgents d ! i) \<in> {COMPLETED, FAILED, TIMEOUT, CANCELLED} \<or>
              jobDistributionId (jobDistributionAgents d ! i) \<noteq> did \<or>
              agentId (jobDistributionAgents d ! i) = agentId w \<longrightarrow>
              jobDistributionAgents (snd (selectBestAgentAndComplete did strat now d)) ! i =
                jobDistributionAgents d ! i)"
proof -
  let ?g = "the \<circ> joinAgent d"
  let ?crows = "filter (\<lambda>x. workStatus x = COMPLETED) (assignedAgents did d)"
  let ?sel = "selectBestAgentAndComplete did strat now d"
  obtain e where e: "selectAgent strat (map ?g ?crows) = Some e"
    and run: "?sel =
               (Inr (),
                d\<lparr> jobDistributionRecords :=
                     map (\<lambda>x. if dr_id x = did
                               then x\<lparr>assignedAgentId := Some (res_agentId e),
                                      assignedAgentName := Some (res_agentName e)\<rparr>
                               else x) (jobDistributionRecords d),
                   jobs := map (\<lambda>j. if job_id j = jobId r then j\<lparr>status := JOB_COMPLETED\<rparr> else j)
                               (jobs d),
                   jobDistributionAgents :=
                     map (\<lambda>x. if jobDistributionId x = did \<and> agentId x \<noteq> res_agentId e \<and>
                                  workStatus x \<in> set [ASSIGNED, WORKING]
                               then cancelData now x else x) (jobDistributionAgents d) \<rparr>)"
    using selectBestAgentAndComplete_run [OF assms, of strat now] by blast
  have "map ?g ?crows \<noteq> []"
    using e by (auto simp: selectAgent_def split: strategy.splits)
  then have "e \<in> set (map ?g ?crows)"
    using selectAgent_member [of "map ?g ?crows" strat] e by auto
  then obtain w where w: "w \<in> set ?crows" and ew: "e = ?g w"
    by auto
  have w1: "w \<in> set (jobDistributionAgents d)" "jobDistributionId w = did" "workStatus w = COMPLETED"
    using w by (auto simp: assignedAgents_def)
  have wa: "agent_findUnique (agentId w) d \<noteq> None"
    using integrity_agents [OF assms(1), of did] w by auto
  have id: "res_agentId e = agentId w"
    unfolding ew by (rule joined_fields(2) [OF wa])
  have name: "Some (res_agentName e) = map_option agentName (agent_findUnique (agentId w) d)"
    unfolding ew by (rule joined_fields(4) [OF wa])
  have r1: "fst ?sel = Inr ()"
    unfolding run by simp
  have r2: "jobDistributionRecord_findUnique did (snd ?sel) =
      Some (r\<lparr>assignedAgentId := Some (agentId w),
              assignedAgentName := map_option agentName (agent_findUnique (agentId w) d)\<rparr>)"
    unfolding run
    using assms(2) find_map_update [of "\<lambda>x. dr_id x = did"
        "\<lambda>x. x\<lparr>assignedAgentId := Some (res_agentId e), assignedAgentName := Some (res_agentName e)\<rparr>"
        "jobDistributionRecords d"]
    by (simp add: jobDistributionRecord_findUnique_def id name)
  obtain job where job: "job_findUnique (jobId r) d = Some job"
    using integrity_job [OF assms(1,2)] by auto
  have r3: "map_option status (job_findUnique (jobId r) (snd ?sel)) = Some JOB_COMPLETED"
    unfolding run
    using job find_map_update [of "\<lambda>j. job_id j = jobId r" "\<lambda>j. j\<lparr>status := JOB_COMPLETED\<rparr>" "jobs d"]
    by (simp add: job_findUnique_def)
  have r4: "jobDistributionAgents (snd ?sel) =
      map (\<lambda>x. if jobDistributionId x = did \<and> agentId x \<noteq> agentId w \<and>
                   (workStatus x = ASSIGNED \<or> workStatus x = WORKING)
                then x\<lparr>workStatus := CANCELLED, completedAt := Some now,
                       errorMessage := Some ''Task completed by another agent''\<rparr>
                else x) (jobDistributionAgents d)"
    unfolding run by (auto simp: id cancelData_def)
  have r5: "\<forall>i < length (jobDistributionAgents d).
      workStatus (jobDistributionAgents d ! i) \<in> {COMPLETED, FAILED, TIMEOUT, CANCELLED} \<or>
      jobDistributionId (jobDistributionAgents d ! i) \<noteq> did \<or>
      agentId (jobDistributionAgents d ! i) = agentId w \<longrightarrow>
      jobDistributionAgents (snd ?sel) ! i = jobDistributionAgents d ! i"
    unfolding r4 by auto
  show ?thesis
    using w1 r1 r2 r3 r4 r5 by blast
qed

theorem selectBestAgentAndComplete_effect_witness:
  "referentialIntegrity c2_db \<and>
   map (\<lambda>x. (agentId x, workStatus x, completedAt x)) (jobDistributionAgents c2_db) =
     [(''a1'', COMPLETED, Some 5), (''a2'', WORKING, None), (''a3'', FAILED, Some 4)] \<and>
   map (\<lambda>x. (agentId x, workStatus x, completedAt x))
       (jobDistributionAgents (snd (selectBestAgentAndComplete ''d1'' first_completed 9 c2_db))) =
     [(''a1'', COMPLETED, Some 5), (''a2'', CANCELLED, Some 9), (''a3'', FAILED, Some 4)] \<and>
   map_option assignedAgentId
     (jobDistributionRecord_findUnique ''d1''
        (snd (selectBestAgentAndComplete ''d1'' first_completed 9 c2_db))) = Some (Some ''a1'')"
proof -
  have h1: "referentialIntegrity c2_db"
    by (simp add: referentialIntegrity_def c2_db_def ex_db_def ex_row_def ex_agent_def
        ex_record_def ex_job_def)
  have h2: "jobDistributionRecord_findUnique ''d1'' c2_db = Some ex_record"
    by (simp add: jobDistributionRecord_findUnique_def c2_db_def ex_db_def ex_record_def)
  have h3: "\<exists>x \<in> set (jobDistributionAgents c2_db).
      jobDistributionId x = ''d1'' \<and> workStatus x = COMPLETED"
    by (simp add: c2_db_def ex_db_def ex_row_def)
  obtain w where w: "w \<in> set (jobDistributionAgents c2_db)" "workStatus w = COMPLETED"
    and rec: "jobDistributionRecord_findUnique ''d1''
        (snd (selectBestAgentAndComplete ''d1'' first_completed 9 c2_db)) =
      Some (ex_record\<lparr>assignedAgentId := Some (agentId w),
              assignedAgentName := map_option agentName (agent_findUnique (agentId w) c2_db)\<rparr>)"
    and rows: "jobDistributionAgents (snd (selectBestAgentAndComplete ''d1'' first_completed 9 c2_db)) =
      map (\<lambda>x. if jobDistributionId x = ''d1'' \<and> agentId x \<noteq> agentId w \<and>
                   (workStatus x = ASSIGNED \<or> workStatus x = WORKING)
                then x\<lparr>workStatus := CANCELLED, completedAt := Some 9,
                       errorMessage := Some ''Task completed by another agent''\<rparr>
                else x) (jobDistributionAgents c2_db)"
    using selectBestAgentAndComplete_effect [OF h1 h2 h3, of first_completed 9] by blast
  have "agentId w = ''a1''"
    using w by (auto simp: c2_db_def ex_db_def ex_row_def)
  then show ?thesis
    using h1 rec rows by (simp add: c2_db_def ex_db_def ex_row_def)
qed

lemma find_filter_conj:
  "find P (filter Q xs) = find (\<lambda>x. Q x \<and> P x) xs"
  by (induction xs) auto

lemma find_map_comp:
  "find P (map f xs) = map_option f (find (\<lambda>x. P (f x)) xs)"
  by (induction xs) auto

text \<open>
  C5. On a store that respects its foreign keys, for every distribution with at least one
  COMPLETED assignment, all of them stamped with their completedAt, first_completed
  selection returns normally and records as winner the agent of the assignment w, where t
  is the earliest completedAt among the distribution's COMPLETED assignments and w is the
  first row, in table order, that is COMPLETED with completedAt = t. The winner is thus
  fixed by the timestamps, whatever the order of the rows, and ties go to the first
  encountered.
\<close>

theorem first_completed_earliest:
  assumes "referentialIntegrity d"
    and "jobDistributionRecord_findUnique did d = Some r"
    and "\<exists>x \<in> set (jobDistributionAgents d). jobDistributionId x = did \<and> workStatus x = COMPLETED"
    and "\<forall>x \<in> set (jobDistributionAgents d).
           jobDistributionId x = did \<and> workStatus x = COMPLETED \<longrightarrow> completedAt x \<noteq> None"
  shows "\<exists>w t.
           find (\<lambda>x. jobDistributionId x = did \<and> workStatus x = COMPLETED \<and> completedAt x = Some t)
                (jobDistributionAgents d) = Some w \<and>
           (\<forall>x \<in> set (jobDistributionAgents d).
              jobDistributionId x = did \<and> workStatus x = COMPLETED \<longrightarrow>
              (\<exists>t'. completedAt x = Some t' \<and> t \<le> t')) \<and>
           fst (selectBestAgentAndComplete did first_completed now d) = Inr () \<and>
           map_option assignedAgentId
             (jobDistributionRecord_findUnique did
                (snd (selectBestAgentAndComplete did first_completed now d))) =
             Some (Some (agentId w))"
proof -
  let ?g = "the \<circ> joinAgent d"
  let ?crows = "filter (\<lambda>x. workStatus x = COMPLETED) (assignedAgents did d)"
  let ?sel = "selectBestAgentAndComplete did first_completed now d"
  obtain e where e: "selectAgent first_completed (map ?g ?crows) = Some e"
    and run: "?sel =
               (Inr (),
                d\<lparr> jobDistributionRecords :=
                     map (\<lambda>x. if dr_id x = did
                               then x\<lparr>assignedAgentId := Some (res_agentId e),
                                      assignedAgentName := Some (res_agentName e)\<rparr>
                               else x) (jobDistributionRecords d),
                   jobs := map (\<lambda>j. if job_id j = jobId r then j\<lparr>status := JOB_COMPLETED\<rparr> else j)
                               (jobs d),
                   jobDistributionAgents :=
                     map (\<lambda>x. if jobDistributionId x = did \<and> agentId x \<noteq> res_agentId e \<and>
                                  workStatus x \<in> set [ASSIGNED, WORKING]
                               then cancelData now x else x) (jobDistributionAgents d) \<rparr>)"
    using selectBestAgentAndComplete_run [OF assms(1,2,3), of first_completed now] by blast
  obtain es where s: "sort_key completedAtTime (map ?g ?crows) = e # es"
    using e by (auto simp: selectAgent_def split: list.splits)
  have least: "\<forall>y \<in> set (map ?g ?crows). completedAtTime e \<le> completedAtTime y"
    by (rule sort_key_first(2) [OF s])
  have "find (\<lambda>y. completedAtTime y = completedAtTime e) (map ?g ?crows) = Some e"
    by (rule sort_key_first(3) [OF s])
  then obtain w where fw: "find (\<lambda>x. completedAtTime (?g x) = completedAtTime e) ?crows = Some w"
    and ew: "e = ?g w"
    by (auto simp: find_map_comp)
  have agent: "\<And>x. x \<in> set ?crows \<Longrightarrow> agent_findUnique (agentId x) d \<noteq> None"
    using integrity_agents [OF assms(1), of did] by auto
  have stamped: "\<And>x. x \<in> set ?crows \<Longrightarrow> completedAt x = Some (completedAtTime (?g x))"
  proof -
    fix x assume x: "x \<in> set ?crows"
    then have "completedAt x \<noteq> None"
      using assms(4) by (auto simp: assignedAgents_def)
    then show "completedAt x = Some (completedAtTime (?g x))"
      using joined_fields(3) [OF agent [OF x]] by (auto simp: completedAtTime_def)
  qed
  define t where "t = completedAtTime e"
  have same: "\<And>x. x \<in> set ?crows \<Longrightarrow>
      (completedAtTime (?g x) = completedAtTime e) = (completedAt x = Some t)"
    using stamped by (auto simp: t_def)
  have "find (\<lambda>x. completedAt x = Some t) ?crows = Some w"
    using fw find_cong [OF refl, of ?crows "\<lambda>x. completedAtTime (?g x) = completedAtTime e"
        "\<lambda>x. completedAt x = Some t"] same
    by simp
  then have first: "find (\<lambda>x. jobDistributionId x = did \<and> workStatus x = COMPLETED \<and>
      completedAt x = Some t) (jobDistributionAgents d) = Some w"
    by (simp add: assignedAgents_def find_filter_conj conj_assoc)
  have earliest: "\<forall>x \<in> set (jobDistributionAgents d).
      jobDistributionId x = did \<and> workStatus x = COMPLETED \<longrightarrow>
      (\<exists>t'. completedAt x = Some t' \<and> t \<le> t')"
  proof (intro ballI impI)
    fix x assume "x \<in> set (jobDistributionAgents d)"
      and "jobDistributionId x = did \<and> workStatus x = COMPLETED"
    then have x: "x \<in> set ?crows"
      by (simp add: assignedAgents_def)
    then have "t \<le> completedAtTime (?g x)"
      using least by (simp add: t_def)
    then show "\<exists>t'. completedAt x = Some t' \<and> t \<le> t'"
      using stamped [OF x] by simp
  qed
  have w: "w \<in> set ?crows"
    using fw by (rule find_Some_mem)
  have id: "res_agentId e = agentId w"
    unfolding ew by (rule joined_fields(2) [OF agent [OF w]])
  have r1: "fst ?sel = Inr ()"
    unfolding run by simp
  have r2: "map_option assignedAgentId (jobDistributionRecord_findUnique did (snd ?sel)) =
      Some (Some (agentId w))"
    unfolding run
    using assms(2) find_map_update [of "\<lambda>x. dr_id x = did"
        "\<lambda>x. x\<lparr>assignedAgentId := Some (res_agentId e), assignedAgentName := Some (res_agentName e)\<rparr>"
        "jobDistributionRecords d"]
    by (simp add: jobDistributionRecord_findUnique_def id)
  show ?thesis
    using first earliest r1 r2 by blast
qed

text \<open>
  Completions at 100, 50 and 50, recorded in that order: the first of the two stamped 50
  wins.
\<close>

theorem first_completed_earliest_witness:
  "referentialIntegrity c5_db \<and>
   map (\<lambda>x. (agentId x, workStatus x, completedAt x)) (jobDistributionAgents c5_db) =
     [(''a1'', COMPLETED, Some 100), (''a2'', COMPLETED, Some 50), (''a3'', COMPLETED, Some 50)] \<and>
   map_option assignedAgentId
     (jobDistributionRecord_findUnique ''d1''
        (snd (selectBestAgentAndComplete ''d1'' first_completed 200 c5_db))) = Some (Some ''a2'')"
proof -
  have h1: "referentialIntegrity c5_db"
    by (simp add: referentialIntegrity_def c5_db_def ex_db_def ex_row_def ex_agent_def
        ex_record_def ex_job_def)
  have h2: "jobDistributionRecord_findUnique ''d1'' c5_db = Some ex_record"
    by (simp add: jobDistributionRecord_findUnique_def c5_db_def ex_db_def ex_record_def)
  have h3: "\<exists>x \<in> set (jobDistributionAgents c5_db).
      jobDistributionId x = ''d1'' \<and> workStatus x = COMPLETED"
    by (simp add: c5_db_def ex_db_def ex_row_def)
  have h4: "\<forall>x \<in> set (jobDistributionAgents c5_db).
      jobDistributionId x = ''d1'' \<and> workStatus x = COMPLETED \<longrightarrow> completedAt x \<noteq> None"
    by (simp add: c5_db_def ex_db_def ex_row_def)
  obtain w t where
    first: "find (\<lambda>x. jobDistributionId x = ''d1'' \<and> workStatus x = COMPLETED \<and>
                       completedAt x = Some t) (jobDistributionAgents c5_db) = Some w"
    and earliest: "\<forall>x \<in> set (jobDistributionAgents c5_db).
        jobDistributionId x = ''d1'' \<and> workStatus x = COMPLETED \<longrightarrow>
        (\<exists>t'. completedAt x = Some t' \<and> t \<le> t')"
    and rec: "map_option assignedAgentId
        (jobDistributionRecord_findUnique ''d1''
           (snd (selectBestAgentAndComplete ''d1'' first_completed 200 c5_db))) =
        Some (Some (agentId w))"
    using first_completed_earliest [OF h1 h2 h3 h4, of 200] by blast
  have le: "t \<le> 50"
    using earliest by (simp add: c5_db_def ex_db_def ex_row_def)
  have "agentId w = ''a2''"
    using first le by (auto simp: c5_db_def ex_db_def ex_row_def split: if_splits)
  then show ?thesis
    using h1 rec by (simp add: c5_db_def ex_db_def ex_row_def)
qed

section \<open>The best_scored winner\<close>

lemma calculateResultScore_agent:
  "calculateResultScore (toExecutionResult x a) = calculateResultScore (toExecutionResult x a')"
  by (simp add: calculateResultScore_def toExecutionResult_def)

lemma calculateResultScore_row:
  assumes "workStatus x = COMPLETED" and "executionTimeMs x \<noteq> Some 0"
  shows "calculateResultScore (toExecutionResult x a) =
           (case executionTimeMs x of
              Some t \<Rightarrow>
                spec_resultScore t (case executionResult x of Some s \<Rightarrow> length s | None \<Rightarrow> 0)
            | None \<Rightarrow>
                100 + min 20 (real (case executionResult x of Some s \<Rightarrow> length s | None \<Rightarrow> 0) / 100))"
  using assms
  by (auto simp: calculateResultScore_def toExecutionResult_def spec_resultScore_def
      truthyNumber_def truthyString_def split: option.splits)

text \<open>
  C6, as the code has it. On a store that respects its foreign keys, for every distribution
  with at least one COMPLETED assignment, best_scored selection returns normally and
  records as winner the agent of a COMPLETED assignment w of the distribution whose result
  score is the highest among the distribution's COMPLETED assignments. The result score of
  a COMPLETED assignment is computed from its row alone (the agent joined to it plays no
  part): with a recorded executionTimeMs other than 0 it is
  100 + max(0, 50 - executionTimeMs/60000) + min(20, resultLength/100), with no recorded
  executionTimeMs the speed bonus is left out and the score is
  100 + min(20, resultLength/100); resultLength is the length of the recorded result, 0 when
  none is recorded.
\<close>

theorem best_scored_winner:
  assumes "referentialIntegrity d"
    and "jobDistributionRecord_findUnique did d = Some r"
    and "\<exists>x \<in> set (jobDistributionAgents d). jobDistributionId x = did \<and> workStatus x = COMPLETED"
  shows "\<exists>w \<in> set (jobDistributionAgents d).
           jobDistributionId w = did \<and> workStatus w = COMPLETED \<and>
           (\<forall>x \<in> set (jobDistributionAgents d).
              jobDistributionId x = did \<and> workStatus x = COMPLETED \<longrightarrow>
              (\<forall>a a'. calculateResultScore (toExecutionResult x a) \<le>
                       calculateResultScore (toExecutionResult w a')) \<and>
              (executionTimeMs x \<noteq> Some 0 \<longrightarrow>
               (\<forall>a. calculateResultScore (toExecutionResult x a) =
                  (case executionTimeMs x of
                     Some t \<Rightarrow>
                       spec_resultScore t
                         (case executionResult x of Some s \<Rightarrow> length s | None \<Rightarrow> 0)
                   | None \<Rightarrow>
                       100 + min 20 (real (case executionResult x of Some s \<Rightarrow> length s
                                                                     | None \<Rightarrow> 0) / 100))))) \<and>
           fst (selectBestAgentAndComplete did best_scored now d) = Inr () \<and>
           map_option assignedAgentId
             (jobDistributionRecord_findUnique did
                (snd (selectBestAgentAndComplete did best_scored now d))) =
             Some (Some (agentId w))"
proof -
  let ?g = "the \<circ> joinAgent d"
  let ?crows = "filter (\<lambda>x. workStatus x = COMPLETED) (assignedAgents did d)"
  let ?sel = "selectBestAgentAndComplete did best_scored now d"
  obtain e where e: "selectAgent best_scored (map ?g ?crows) = Some e"
    and run: "?sel =
               (Inr (),
                d\<lparr> jobDistributionRecords :=
                     map (\<lambda>x. if dr_id x = did
                               then x\<lparr>assignedAgentId := Some (res_agentId e),
                                      assignedAgentName := Some (res_agentName e)\<rparr>
                               else x) (jobDistributionRecords d),
                   jobs := map (\<lambda>j. if job_id j = jobId r then j\<lparr>status := JOB_COMPLETED\<rparr> else j)
                               (jobs d),
                   jobDistributionAgents :=
                     map (\<lambda>x. if jobDistributionId x = did \<and> agentId x \<noteq> res_agentId e \<and>
                                  workStatus x \<in> set [ASSIGNED, WORKING]
                               then cancelData now x else x) (jobDistributionAgents d) \<rparr>)"
    using selectBestAgentAndComplete_run [OF assms(1,2,3), of best_scored now] by blast
  obtain es where s: "sort_key (\<lambda>a. - calculateResultScore a) (map ?g ?crows) = e # es"
    using e by (auto simp: selectAgent_def split: list.splits)
  have best: "\<forall>y \<in> set (map ?g ?crows). calculateResultScore y \<le> calculateResultScore e"
    using sort_key_first(2) [OF s] by simp
  have "e \<in> set (map ?g ?crows)"
    by (rule sort_key_first(1) [OF s])
  then obtain w where w: "w \<in> set ?crows" and ew: "e = ?g w"
    by auto
  have agent: "\<And>x. x \<in> set ?crows \<Longrightarrow> agent_findUnique (agentId x) d \<noteq> None"
    using integrity_agents [OF assms(1), of did] by auto
  have joined: "\<And>x a. x \<in> set ?crows \<Longrightarrow>
      calculateResultScore (?g x) = calculateResultScore (toExecutionResult x a)"
  proof -
    fix x a assume "x \<in> set ?crows"
    then obtain b where "agent_findUnique (agentId x) d = Some b"
      using agent by blast
    then have "?g x = toExecutionResult x b"
      by (rule joined_execution)
    then show "calculateResultScore (?g x) = calculateResultScore (toExecutionResult x a)"
      using calculateResultScore_agent [of x b a] by simp
  qed
  have wr: "w \<in> set (jobDistributionAgents d)" "jobDistributionId w = did"
    "workStatus w = COMPLETED"
    using w by (auto simp: assignedAgents_def)
  have highest: "\<forall>x \<in> set (jobDistributionAgents d).
      jobDistributionId x = did \<and> workStatus x = COMPLETED \<longrightarrow>
      (\<forall>a a'. calculateResultScore (toExecutionResult x a) \<le>
               calculateResultScore (toExecutionResult w a')) \<and>
      (executionTimeMs x \<noteq> Some 0 \<longrightarrow>
       (\<forall>a. calculateResultScore (toExecutionResult x a) =
          (case executionTimeMs x of
             Some t \<Rightarrow>
               spec_resultScore t (case executionResult x of Some s \<Rightarrow> length s | None \<Rightarrow> 0)
           | None \<Rightarrow>
               100 + min 20 (real (case executionResult x of Some s \<Rightarrow> length s
                                                             | None \<Rightarrow> 0) / 100))))"
  proof (intro ballI impI conjI allI)
    fix x a a'
    assume xr: "x \<in> set (jobDistributionAgents d)"
      and xc: "jobDistributionId x = did \<and> workStatus x = COMPLETED"
    then have x: "x \<in> set ?crows"
      by (simp add: assignedAgents_def)
    have "calculateResultScore (?g x) \<le> calculateResultScore (?g w)"
      using best x by (simp add: ew)
    then show "calculateResultScore (toExecutionResult x a) \<le>
        calculateResultScore (toExecutionResult w a')"
      using joined [OF x, of a] joined [OF w, of a'] by simp
  next
    fix x :: JobDistributionAgent and a :: Agent
    assume xc: "jobDistributionId x = did \<and> workStatus x = COMPLETED"
      and "executionTimeMs x \<noteq> Some 0"
    then show "calculateResultScore (toExecutionResult x a) =
         (case executionTimeMs x of
            Some t \<Rightarrow>
              spec_resultScore t (case executionResult x of Some s \<Rightarrow> length s | None \<Rightarrow> 0)
          | None \<Rightarrow>
              100 + min 20 (real (case executionResult x of Some s \<Rightarrow> length s
                                                            | None \<Rightarrow> 0) / 100))"
      by (intro calculateResultScore_row) simp_all
  qed
  have id: "res_agentId e = agentId w"
    unfolding ew by (rule joined_fields(2) [OF agent [OF w]])
  have r1: "fst ?sel = Inr ()"
    unfolding run by simp
  have r2: "map_option assignedAgentId (jobDistributionRecord_findUnique did (snd ?sel)) =
      Some (Some (agentId w))"
    unfolding run
    using assms(2) find_map_update [of "\<lambda>x. dr_id x = did"
        "\<lambda>x. x\<lparr>assignedAgentId := Some (res_agentId e), assignedAgentName := Some (res_agentName e)\<rparr>"
        "jobDistributionRecords d"]
    by (simp add: jobDistributionRecord_findUnique_def id)
  show ?thesis
    using wr highest r1 r2 by blast
qed

text \<open>
  The concrete case of the specification: agent a2 completed in 10000 ms with a result of
  500 characters and scores 100 + 49.8333... + 5, agent a1 completed in 600000 ms with 50
  characters and scores 100 + 40 + 0.5; a2 is recorded as the winner although a1's row comes
  first and was completed earlier.
\<close>

theorem best_scored_winner_witness:
  "referentialIntegrity c6_db \<and>
   map (\<lambda>x. (agentId x, workStatus x, executionTimeMs x, map_option length (executionResult x)))
       (jobDistributionAgents c6_db) =
     [(''a1'', COMPLETED, Some 600000, Some 50), (''a2'', COMPLETED, Some 10000, Some 500)] \<and>
   map_option assignedAgentId
     (jobDistributionRecord_findUnique ''d1''
        (snd (selectBestAgentAndComplete ''d1'' best_scored 9 c6_db))) = Some (Some ''a2'')"
proof -
  let ?b = "ex_row ''a1'' COMPLETED (Some (replicate 50 CHR ''x'')) (Some 7) (Some 600000)"
  let ?a = "ex_row ''a2'' COMPLETED (Some (replicate 500 CHR ''x'')) (Some 8) (Some 10000)"
  have h1: "referentialIntegrity c6_db"
    by (simp add: referentialIntegrity_def c6_db_def ex_db_def ex_row_def ex_agent_def
        ex_record_def ex_job_def)
  have h2: "jobDistributionRecord_findUnique ''d1'' c6_db = Some ex_record"
    by (simp add: jobDistributionRecord_findUnique_def c6_db_def ex_db_def ex_record_def)
  have rows: "jobDistributionAgents c6_db = [?b, ?a]"
    by (simp add: c6_db_def ex_db_def)
  have h3: "\<exists>x \<in> set (jobDistributionAgents c6_db).
      jobDistributionId x = ''d1'' \<and> workStatus x = COMPLETED"
    unfolding rows by (simp add: ex_row_def)
  have a: "calculateResultScore (toExecutionResult ?a (ex_agent ''a2'' ''Bob'')) = 100 + (50 - 1 / 6) + 5"
    by (simp add: calculateResultScore_def toExecutionResult_def ex_row_def
        truthyNumber_def truthyString_def)
  have b: "calculateResultScore (toExecutionResult ?b (ex_agent ''a2'' ''Bob'')) = 100 + 40 + 0.5"
    by (simp add: calculateResultScore_def toExecutionResult_def ex_row_def
        truthyNumber_def truthyString_def)
  obtain w where w: "w \<in> set (jobDistributionAgents c6_db)"
    and highest: "\<forall>x \<in> set (jobDistributionAgents c6_db).
        jobDistributionId x = ''d1'' \<and> workStatus x = COMPLETED \<longrightarrow>
        (\<forall>a a'. calculateResultScore (toExecutionResult x a) \<le>
                 calculateResultScore (toExecutionResult w a'))"
    and rec: "map_option assignedAgentId
        (jobDistributionRecord_findUnique ''d1''
           (snd (selectBestAgentAndComplete ''d1'' best_scored 9 c6_db))) =
        Some (Some (agentId w))"
    using best_scored_winner [OF h1 h2 h3, of 9] by blast
  have "w = ?a"
  proof (rule ccontr)
    assume "w \<noteq> ?a"
    then have wb: "w = ?b"
      using w unfolding rows by simp
    have "jobDistributionId ?a = ''d1'' \<and> workStatus ?a = COMPLETED"
      by (simp add: ex_row_def)
    then have "calculateResultScore (toExecutionResult ?a (ex_agent ''a2'' ''Bob'')) \<le>
        calculateResultScore (toExecutionResult ?b (ex_agent ''a2'' ''Bob''))"
      using highest unfolding rows wb by simp
    then show False
      unfolding a b by simp
  qed
  then have "agentId w = ''a2''"
    by (simp add: ex_row_def)
  then show ?thesis
    using h1 rec unfolding rows by (simp add: ex_row_def)
qed

text \<open>
  C6 as stated fails for a COMPLETED assignment on which no executionTimeMs is recorded
  (the tracker's \<open>handleExecutionCompleted\<close> takes the time as an optional argument, and
  the dispatcher passes none). Agent a1 completed with the result 'ok' and no recorded
  time: the stated score is 100 + 50 + 0.02, the code leaves the speed bonus out and scores
  100.02. Agent a2 completed in 600000 ms with 50 characters and scores 140.5 either way.
  The stated scores make a1 the winner; the code records a2.
\<close>

theorem untimed_completion_counterexample:
  "map (\<lambda>x. (agentId x, workStatus x, executionTimeMs x, map_option length (executionResult x)))
       (jobDistributionAgents c6_untimed_db) =
     [(''a1'', COMPLETED, None, Some 2), (''a2'', COMPLETED, Some 600000, Some 50)] \<and>
   map (\<lambda>x. calculateResultScore (toExecutionResult x (ex_agent (agentId x) ''Ada'')))
       (jobDistributionAgents c6_untimed_db) = [100.02, 140.5] \<and>
   map spec_assignmentScore (jobDistributionAgents c6_untimed_db) = [150.02, 140.5] \<and>
   map_option assignedAgentId
     (jobDistributionRecord_findUnique ''d1''
        (snd (selectBestAgentAndComplete ''d1'' best_scored 9 c6_untimed_db))) =
     Some (Some ''a2'')"
proof -
  let ?p = "ex_row ''a1'' COMPLETED (Some ''ok'') (Some 7) None"
  let ?q = "ex_row ''a2'' COMPLETED (Some (replicate 50 CHR ''x'')) (Some 8) (Some 600000)"
  have rows: "jobDistributionAgents c6_untimed_db = [?p, ?q]"
    by (simp add: c6_untimed_db_def ex_db_def)
  have p: "\<And>a. calculateResultScore (toExecutionResult ?p a) = 100.02"
    by (simp add: calculateResultScore_def toExecutionResult_def ex_row_def
        truthyNumber_def truthyString_def)
  have q: "\<And>a. calculateResultScore (toExecutionResult ?q a) = 140.5"
    by (simp add: calculateResultScore_def toExecutionResult_def ex_row_def
        truthyNumber_def truthyString_def)
  have sp: "spec_assignmentScore ?p = 150.02" "spec_assignmentScore ?q = 140.5"
    by (simp_all add: spec_assignmentScore_def spec_resultScore_def ex_row_def)
  have win: "map_option assignedAgentId
     (jobDistributionRecord_findUnique ''d1''
        (snd (selectBestAgentAndComplete ''d1'' best_scored 9 c6_untimed_db))) =
     Some (Some ''a2'')"
    by (simp add: selectBestAgentAndComplete_def getDistributionDetail_def joinAgent_def
        agent_findUnique_def jobDistributionRecord_findUnique_def toExecutionResult_def
        selectAgent_def calculateResultScore_def transaction_def
        jobDistributionRecord_update_def job_update_def job_findUnique_def
        jobDistributionAgent_updateMany_def assignedAgents_def cancelData_def
        truthyString_def truthyNumber_def
        c6_untimed_db_def ex_db_def ex_row_def ex_agent_def ex_record_def ex_job_def)
  show ?thesis
    unfolding rows using p q sp win by (simp add: ex_row_def)
qed

section \<open>The timeout sweep\<close>

lemma filter_map_fixed:
  "(\<forall>x \<in> set xs. P (f x) = P x \<and> (P x \<longrightarrow> f x = x)) \<Longrightarrow> filter P (map f xs) = filter P xs"
  by (induction xs) auto

lemma find_None_filter:
  "find P xs = None \<longleftrightarrow> filter P xs = []"
  by (induction xs) auto

lemma map_unchanged:
  "(\<forall>x \<in> set xs. \<not> P x) \<Longrightarrow> map (\<lambda>x. if P x then f x else x) xs = xs"
  by (induction xs) auto

lemma map_update_twice:
  "(\<And>x. P (f x) = P x) \<Longrightarrow> (\<And>x. f (f x) = f x) \<Longrightarrow>
   map (\<lambda>x. if P x then f x else x) (map (\<lambda>x. if P x then f x else x) xs) =
   map (\<lambda>x. if P x then f x else x) xs"
  by (induction xs) auto

lemma timeoutSweep_fields [simp]:
  "jobs (timeoutSweep did now d) = jobs d"
  "agents (timeoutSweep did now d) = agents d"
  "jobDistributionRecords (timeoutSweep did now d) = jobDistributionRecords d"
  "executionLogs (timeoutSweep did now d) = executionLogs d"
  "agentPerformances (timeoutSweep did now d) = agentPerformances d"
  by (simp_all add: timeoutSweep_def jobDistributionAgent_updateMany_def)

lemma timeoutSweep_rows:
  "jobDistributionAgents (timeoutSweep did now d) =
     map (\<lambda>x. if jobDistributionId x = did \<and> workStatus x \<in> set [ASSIGNED, WORKING]
               then timeoutData now x else x) (jobDistributionAgents d)"
  by (simp add: timeoutSweep_def jobDistributionAgent_updateMany_def)

lemma timeoutSweep_settles:
  "\<forall>x \<in> set (jobDistributionAgents (timeoutSweep did now d)).
     \<not> (jobDistributionId x = did \<and> workStatus x \<in> set [ASSIGNED, WORKING])"
proof
  let ?f = "\<lambda>y. if jobDistributionId y = did \<and> workStatus y \<in> set [ASSIGNED, WORKING]
                 then timeoutData now y else y"
  fix x assume "x \<in> set (jobDistributionAgents (timeoutSweep did now d))"
  then have "x \<in> ?f ` set (jobDistributionAgents d)"
    by (simp only: timeoutSweep_rows set_map)
  then obtain y where x: "x = ?f y"
    by (rule imageE)
  show "\<not> (jobDistributionId x = did \<and> workStatus x \<in> set [ASSIGNED, WORKING])"
    unfolding x by (simp add: timeoutData_def)
qed

lemma settled_sweep:
  assumes "\<forall>x \<in> set (jobDistributionAgents d).
     \<not> (jobDistributionId x = did \<and> workStatus x \<in> set [ASSIGNED, WORKING])"
  shows "timeoutSweep did now d = d"
    and "map (\<lambda>x. if jobDistributionId x = did \<and> agentId x \<noteq> a \<and>
                     workStatus x \<in> set [ASSIGNED, WORKING]
                  then cancelData now x else x) (jobDistributionAgents d) =
         jobDistributionAgents d"
proof -
  have "map (\<lambda>x. if jobDistributionId x = did \<and> workStatus x \<in> set [ASSIGNED, WORKING]
                  then timeoutData now x else x) (jobDistributionAgents d) =
        jobDistributionAgents d"
    by (rule map_unchanged) (use assms in auto)
  then show "timeoutSweep did now d = d"
    by (simp add: timeoutSweep_def jobDistributionAgent_updateMany_def)
  show "map (\<lambda>x. if jobDistributionId x = did \<and> agentId x \<noteq> a \<and>
                     workStatus x \<in> set [ASSIGNED, WORKING]
                  then cancelData now x else x) (jobDistributionAgents d) =
         jobDistributionAgents d"
    by (rule map_unchanged) (use assms in auto)
qed

lemma joinAgent_agents:
  "agents d' = agents d \<Longrightarrow> joinAgent d' = joinAgent d"
  by (auto simp: joinAgent_def agent_findUnique_def fun_eq_iff)

lemma agent_findUnique_agents:
  "agents d' = agents d \<Longrightarrow> agent_findUnique a d' = agent_findUnique a d"
  by (simp add: agent_findUnique_def)

text \<open>
  A bulk update that rewrites outstanding assignments into a terminal state other than
  COMPLETED -- the sweep and the cancellation of the losers are the two -- changes
  neither the COMPLETED assignments of a distribution, nor the agents its assignments
  refer to, nor the join with the agents.
\<close>

lemma retouched_store:
  assumes rows: "jobDistributionAgents d' =
                   map (\<lambda>x. if P x then u x else x) (jobDistributionAgents d)"
    and ags: "agents d' = agents d"
    and k1: "\<And>x. jobDistributionId (u x) = jobDistributionId x"
    and k2: "\<And>x. agentId (u x) = agentId x"
    and st: "\<And>x. P x \<Longrightarrow> workStatus x \<noteq> COMPLETED \<and> workStatus (u x) \<noteq> COMPLETED"
  shows "filter (\<lambda>x. workStatus x = COMPLETED) (assignedAgents did d') =
         filter (\<lambda>x. workStatus x = COMPLETED) (assignedAgents did d)"
    and "(\<exists>x \<in> set (assignedAgents did d'). agent_findUnique (agentId x) d' = None) \<longleftrightarrow>
         (\<exists>x \<in> set (assignedAgents did d). agent_findUnique (agentId x) d = None)"
    and "joinAgent d' = joinAgent d"
proof -
  let ?f = "\<lambda>x. if P x then u x else x"
  let ?Q = "\<lambda>x. jobDistributionId x = did \<and> workStatus x = COMPLETED"
  have kf: "\<And>x. jobDistributionId (?f x) = jobDistributionId x"
    by (simp add: k1)
  have af: "\<And>x. agentId (?f x) = agentId x"
    by (simp add: k2)
  have "filter ?Q (map ?f (jobDistributionAgents d)) = filter ?Q (jobDistributionAgents d)"
    by (rule filter_map_fixed) (use st k1 in auto)
  then show "filter (\<lambda>x. workStatus x = COMPLETED) (assignedAgents did d') =
             filter (\<lambda>x. workStatus x = COMPLETED) (assignedAgents did d)"
    by (simp add: assignedAgents_def rows conj_commute)
  have "filter (\<lambda>r. jobDistributionId r = did) (map ?f (jobDistributionAgents d)) =
        map ?f (filter (\<lambda>r. jobDistributionId (?f r) = did) (jobDistributionAgents d))"
    by (simp only: filter_map comp_def)
  then have as: "assignedAgents did d' = map ?f (assignedAgents did d)"
    unfolding assignedAgents_def rows by (simp only: kf)
  have ids: "map agentId (assignedAgents did d') = map agentId (assignedAgents did d)"
    unfolding as by (simp add: af comp_def)
  have a: "\<And>i. agent_findUnique i d' = agent_findUnique i d"
    by (rule agent_findUnique_agents [OF ags])
  have "(\<exists>x \<in> set (assignedAgents did d'). agent_findUnique (agentId x) d = None) \<longleftrightarrow>
        (\<exists>i \<in> set (map agentId (assignedAgents did d')). agent_findUnique i d = None)"
    by simp
  also have "\<dots> \<longleftrightarrow> (\<exists>i \<in> set (map agentId (assignedAgents did d)). agent_findUnique i d = None)"
    by (simp only: ids)
  also have "\<dots> \<longleftrightarrow> (\<exists>x \<in> set (assignedAgents did d). agent_findUnique (agentId x) d = None)"
    by simp
  finally show "(\<exists>x \<in> set (assignedAgents did d'). agent_findUnique (agentId x) d' = None) \<longleftrightarrow>
        (\<exists>x \<in> set (assignedAgents did d). agent_findUnique (agentId x) d = None)"
    by (simp only: a)
  show "joinAgent d' = joinAgent d"
    by (rule joinAgent_agents [OF ags])
qed

lemma timeoutSweep_completed:
  "filter (\<lambda>x. workStatus x = COMPLETED) (assignedAgents did (timeoutSweep did now d)) =
   filter (\<lambda>x. workStatus x = COMPLETED) (assignedAgents did d)"
  by (rule retouched_store(1) [OF timeoutSweep_rows]) (auto simp: timeoutData_def)

lemma handleDistributionTimeout_missing:
  assumes "jobDistributionRecord_findUnique did d = None"
  shows "handleDistributionTimeout did now now' d = (Inl NotFound, d)"
  using assms by (simp add: handleDistributionTimeout_def)

text \<open>
  The runs of \<open>handleDistributionTimeout\<close> on a distribution that exists.
\<close>

lemma handleDistributionTimeout_cases:
  assumes rec: "jobDistributionRecord_findUnique did d = Some r"
  shows "handleDistributionTimeout did now now' d =
     (if filter (\<lambda>x. workStatus x = COMPLETED) (assignedAgents did d) = []
      then
        (if job_findUnique (jobId r) d = None
         then (Inl (Persistence RecordNotFound), d)
         else (Inr (),
               (timeoutSweep did now d)
               \<lparr> jobs := map (\<lambda>j. if job_id j = jobId r then j\<lparr>status := EXPIRED\<rparr> else j)
                             (jobs d) \<rparr>))
      else if \<exists>x \<in> set (assignedAgents did d). agent_findUnique (agentId x) d = None
      then (Inl TypeError, d)
      else
        (case selectAgent first_completed (map (the \<circ> joinAgent d)
                 (filter (\<lambda>x. workStatus x = COMPLETED) (assignedAgents did d))) of
           None \<Rightarrow> (Inl TypeError, d)
         | Some e \<Rightarrow>
             if job_findUnique (jobId r) d = None
             then (Inl (Persistence RecordNotFound), d)
             else if map (\<lambda>x. if jobDistributionId x = did \<and> agentId x \<noteq> res_agentId e \<and>
                                 workStatus x \<in> set [ASSIGNED, WORKING]
                              then cancelData now' x else x) (jobDistributionAgents d) \<noteq>
                     jobDistributionAgents d
             then (Inl (Persistence TransactionExpired),
                   d\<lparr> jobDistributionRecords :=
                        map (\<lambda>x. if dr_id x = did
                                  then x\<lparr>assignedAgentId := Some (res_agentId e),
                                         assignedAgentName := Some (res_agentName e)\<rparr>
                                  else x) (jobDistributionRecords d),
                      jobs := map (\<lambda>j. if job_id j = jobId r then j\<lparr>status := JOB_COMPLETED\<rparr> else j)
                                  (jobs d),
                      jobDistributionAgents :=
                        map (\<lambda>x. if jobDistributionId x = did \<and> agentId x \<noteq> res_agentId e \<and>
                                     workStatus x \<in> set [ASSIGNED, WORKING]
                                  then cancelData now' x else x) (jobDistributionAgents d) \<rparr>)
             else (Inr (),
                   timeoutSweep did now
                     (d\<lparr> jobDistributionRecords :=
                          map (\<lambda>x. if dr_id x = did
                                    then x\<lparr>assignedAgentId := Some (res_agentId e),
                                           assignedAgentName := Some (res_agentName e)\<rparr>
                                    else x) (jobDistributionRecords d),
                        jobs := map (\<lambda>j. if job_id j = jobId r then j\<lparr>status := JOB_COMPLETED\<rparr> else j)
                                    (jobs d),
                        jobDistributionAgents :=
                          map (\<lambda>x. if jobDistributionId x = did \<and> agentId x \<noteq> res_agentId e \<and>
                                       workStatus x \<in> set [ASSIGNED, WORKING]
                                    then cancelData now' x else x) (jobDistributionAgents d) \<rparr>))))"
proof -
  let ?tx1 = "timeoutSweep did now d"
  let ?C = "filter (\<lambda>x. workStatus x = COMPLETED) (assignedAgents did d)"
  let ?M = "\<exists>x \<in> set (assignedAgents did d). agent_findUnique (agentId x) d = None"
  have f: "filter (\<lambda>r. jobDistributionId r = did \<and> workStatus r = COMPLETED)
             (jobDistributionAgents ?tx1) = ?C"
    using timeoutSweep_completed [of did now d] by (simp add: assignedAgents_def conj_commute)
  have hc: "(find (\<lambda>r. jobDistributionId r = did \<and> workStatus r = COMPLETED)
             (jobDistributionAgents ?tx1) = None) = (?C = [])"
    by (simp only: find_None_filter f)
  have jb: "job_findUnique (jobId r) ?tx1 = job_findUnique (jobId r) d"
    by (simp add: job_findUnique_def)
  show ?thesis
  proof (cases "?C = []")
    case True
    then have "find (\<lambda>r. jobDistributionId r = did \<and> workStatus r = COMPLETED)
             (jobDistributionAgents ?tx1) = None"
      using hc by simp
    then show ?thesis
      using rec True jb
      by (simp add: handleDistributionTimeout_def Let_def job_update_def
          split: option.splits)
  next
    case False
    then obtain c where c: "find (\<lambda>r. jobDistributionId r = did \<and> workStatus r = COMPLETED)
             (jobDistributionAgents ?tx1) = Some c"
      using hc by auto
    have h: "handleDistributionTimeout did now now' d =
        (case selectBestAgentAndComplete did first_completed now' d of
           (Inl e, _) \<Rightarrow> (Inl e, d)
         | (Inr _, d') \<Rightarrow>
             if jobDistributionAgents d' \<noteq> jobDistributionAgents d
             then (Inl (Persistence TransactionExpired), d')
             else (Inr (), timeoutSweep did now d'))"
      using rec c by (simp add: handleDistributionTimeout_def Let_def)
    show ?thesis
    proof (cases ?M)
      case True
      then show ?thesis
        unfolding h using False
        by (simp add: selectBestAgentAndComplete_cases [OF rec])
    next
      case noM: False
      then have nm: "\<forall>x \<in> set (assignedAgents did d). agent_findUnique (agentId x) d \<noteq> None"
        by (simp only: bex_simps(8) simp_thms)
      have ce: "filter (\<lambda>e. res_workStatus e = COMPLETED)
                 (map (the \<circ> joinAgent d) (assignedAgents did d)) = map (the \<circ> joinAgent d) ?C"
        by (rule completed_executions [OF nm])
      show ?thesis
        unfolding h using False noM
        by (auto simp: selectBestAgentAndComplete_cases [OF rec] ce split: option.splits)
    qed
  qed
qed

lemma find_after_update:
  assumes "find (\<lambda>x. k x = i) xs = Some r" and "\<And>x. k (f x) = k x"
  shows "find (\<lambda>x. k x = i) (map (\<lambda>x. if k x = i then f x else x) xs) = Some (f r)"
  using assms find_map_update [of "\<lambda>x. k x = i" f xs] by simp

text \<open>
  When assignments are unique per distribution and agent, no outstanding assignment of
  the distribution shares its agent with a COMPLETED one: the cancellation of the losers
  leaves no outstanding assignment behind.
\<close>

lemma cancellation_settles:
  assumes uniq: "distinct (map assignmentKey (jobDistributionAgents d))"
    and w: "w \<in> set (jobDistributionAgents d)" "jobDistributionId w = did"
      "workStatus w = COMPLETED"
  shows "\<forall>x \<in> set (map (\<lambda>x. if jobDistributionId x = did \<and> agentId x \<noteq> agentId w \<and>
                                 workStatus x \<in> set [ASSIGNED, WORKING]
                              then cancelData now x else x) (jobDistributionAgents d)).
           \<not> (jobDistributionId x = did \<and> workStatus x \<in> set [ASSIGNED, WORKING])"
proof
  let ?f = "\<lambda>x. if jobDistributionId x = did \<and> agentId x \<noteq> agentId w \<and>
                    workStatus x \<in> set [ASSIGNED, WORKING]
                 then cancelData now x else x"
  fix x assume "x \<in> set (map ?f (jobDistributionAgents d))"
  then have "x \<in> ?f ` set (jobDistributionAgents d)"
    by (simp only: set_map)
  then obtain y where y: "y \<in> set (jobDistributionAgents d)" and x: "x = ?f y"
    by (rule imageE)
  have inj: "inj_on assignmentKey (set (jobDistributionAgents d))"
    using uniq by (simp add: distinct_map)
  show "\<not> (jobDistributionId x = did \<and> workStatus x \<in> set [ASSIGNED, WORKING])"
  proof (cases "jobDistributionId y = did \<and> workStatus y \<in> set [ASSIGNED, WORKING]")
    case False
    then show ?thesis
      unfolding x by auto
  next
    case True
    have "agentId y \<noteq> agentId w"
    proof
      assume "agentId y = agentId w"
      then have "assignmentKey y = assignmentKey w"
        using True w(2) by (simp add: assignmentKey_def)
      then have "y = w"
        using inj y w(1) by (rule_tac inj_onD)
      then show False
        using True w(3) by auto
    qed
    then have "x = cancelData now y"
      unfolding x using True by simp
    then show ?thesis
      by (simp add: cancelData_def)
  qed
qed

text \<open>
  C4. On a store whose assignments are unique per distribution and agent (the \<open>@@unique\<close>
  of the schema), running the timeout sweep a second time, at any clock, on the store that
  the first run left behind leaves that store exactly as it is: job, distribution record,
  assignments and every other table. This holds for every distribution id and for every
  way the first run ended: when it returned, when it threw and was rolled back, and when
  its outer transaction expired after the nested winner selection had committed. The
  second run ends as the first did, except after an expired first run: then the second run
  returns normally.
\<close>

theorem handleDistributionTimeout_idempotent:
  assumes "distinct (map assignmentKey (jobDistributionAgents d))"
  shows "snd (handleDistributionTimeout did now2 now2'
                (snd (handleDistributionTimeout did now1 now1' d))) =
           snd (handleDistributionTimeout did now1 now1' d) \<and>
         fst (handleDistributionTimeout did now2 now2'
                (snd (handleDistributionTimeout did now1 now1' d))) =
           (if fst (handleDistributionTimeout did now1 now1' d) =
                 Inl (Persistence TransactionExpired)
            then Inr ()
            else fst (handleDistributionTimeout did now1 now1' d))"
proof (cases "jobDistributionRecord_findUnique did d")
  case None
  then show ?thesis
    by (simp add: handleDistributionTimeout_missing)
next
  case (Some r)
  let ?C = "filter (\<lambda>x. workStatus x = COMPLETED) (assignedAgents did d)"
  let ?M = "\<exists>x \<in> set (assignedAgents did d). agent_findUnique (agentId x) d = None"
  note first = handleDistributionTimeout_cases [OF Some, of now1 now1']
  note again = handleDistributionTimeout_cases [OF Some, of now2 now2']
  show ?thesis
  proof (cases "?C = []")
    case True
    show ?thesis
    proof (cases "job_findUnique (jobId r) d")
      case None
      have a1: "handleDistributionTimeout did now1 now1' d = (Inl (Persistence RecordNotFound), d)"
        using first True None by simp
      have a2: "handleDistributionTimeout did now2 now2' d = (Inl (Persistence RecordNotFound), d)"
        using again True None by simp
      show ?thesis
        unfolding a1 using a2 by simp
    next
      case (Some job)
      let ?exp = "\<lambda>j. j\<lparr>status := EXPIRED\<rparr>"
      define d' where "d' = (timeoutSweep did now1 d)
          \<lparr> jobs := map (\<lambda>j. if job_id j = jobId r then ?exp j else j) (jobs d) \<rparr>"
      have run: "handleDistributionTimeout did now1 now1' d = (Inr (), d')"
        using first True Some by (simp add: d'_def)
      have rows: "jobDistributionAgents d' =
          map (\<lambda>x. if jobDistributionId x = did \<and> workStatus x \<in> set [ASSIGNED, WORKING]
                    then timeoutData now1 x else x) (jobDistributionAgents d)"
        and ags: "agents d' = agents d"
        by (simp_all add: d'_def timeoutSweep_rows)
      have rec': "jobDistributionRecord_findUnique did d' = Some r"
        using \<open>jobDistributionRecord_findUnique did d = Some r\<close>
        by (simp add: jobDistributionRecord_findUnique_def d'_def)
      have "filter (\<lambda>x. workStatus x = COMPLETED) (assignedAgents did d') = ?C"
        by (rule retouched_store(1) [OF rows ags]) (auto simp: timeoutData_def)
      then have c': "filter (\<lambda>x. workStatus x = COMPLETED) (assignedAgents did d') = []"
        using True by simp
      have job': "job_findUnique (jobId r) d' = Some (?exp job)"
        using Some find_after_update [of job_id "jobId r" "jobs d" job ?exp]
        by (simp add: job_findUnique_def d'_def)
      have "\<forall>x \<in> set (jobDistributionAgents d').
          \<not> (jobDistributionId x = did \<and> workStatus x \<in> set [ASSIGNED, WORKING])"
        using timeoutSweep_settles [of did now1 d] by (simp add: d'_def)
      then have sw: "timeoutSweep did now2 d' = d'"
        by (rule settled_sweep(1))
      have jobs': "map (\<lambda>j. if job_id j = jobId r then ?exp j else j) (jobs d') = jobs d'"
        unfolding d'_def
        using map_update_twice [of "\<lambda>j. job_id j = jobId r" ?exp "jobs d"] by simp
      have "handleDistributionTimeout did now2 now2' d' = (Inr (), d'\<lparr>jobs := jobs d'\<rparr>)"
        using handleDistributionTimeout_cases [OF rec', of now2 now2'] c' job'
        by (simp add: sw jobs')
      then show ?thesis
        unfolding run by simp
    qed
  next
    case False
    show ?thesis
    proof (cases ?M)
      case True
      have a1: "handleDistributionTimeout did now1 now1' d = (Inl TypeError, d)"
        using first False True by simp
      have a2: "handleDistributionTimeout did now2 now2' d = (Inl TypeError, d)"
        using again False True by simp
      show ?thesis
        unfolding a1 using a2 by simp
    next
      case noM: False
      obtain e where e: "selectAgent first_completed (map (the \<circ> joinAgent d) ?C) = Some e"
        and em: "e \<in> set (map (the \<circ> joinAgent d) ?C)"
        using selectAgent_member [of "map (the \<circ> joinAgent d) ?C" first_completed] False
        by auto
      show ?thesis
      proof (cases "job_findUnique (jobId r) d")
        case None
        have a1: "handleDistributionTimeout did now1 now1' d = (Inl (Persistence RecordNotFound), d)"
          using first False noM e None by simp
        have a2: "handleDistributionTimeout did now2 now2' d = (Inl (Persistence RecordNotFound), d)"
          using again False noM e None by simp
        show ?thesis
          unfolding a1 using a2 by simp
      next
        case (Some job)
        let ?win = "\<lambda>x. x\<lparr>assignedAgentId := Some (res_agentId e),
                           assignedAgentName := Some (res_agentName e)\<rparr>"
        let ?done = "\<lambda>j. j\<lparr>status := JOB_COMPLETED\<rparr>"
        let ?P = "\<lambda>x. jobDistributionId x = did \<and> agentId x \<noteq> res_agentId e \<and>
                       workStatus x \<in> set [ASSIGNED, WORKING]"
        define d' where "d' = d
            \<lparr> jobDistributionRecords :=
                 map (\<lambda>x. if dr_id x = did then ?win x else x) (jobDistributionRecords d),
               jobs := map (\<lambda>j. if job_id j = jobId r then ?done j else j) (jobs d),
               jobDistributionAgents :=
                 map (\<lambda>x. if ?P x then cancelData now1' x else x) (jobDistributionAgents d) \<rparr>"
        obtain w where wC: "w \<in> set ?C" and ew: "e = (the \<circ> joinAgent d) w"
          using em by auto
        have wr: "w \<in> set (jobDistributionAgents d)" "jobDistributionId w = did"
          "workStatus w = COMPLETED"
          using wC by (auto simp: assignedAgents_def)
        have "agent_findUnique (agentId w) d \<noteq> None"
          using noM wC by auto
        then have id: "res_agentId e = agentId w"
          unfolding ew by (rule joined_fields(2))
        have rows: "jobDistributionAgents d' =
            map (\<lambda>x. if ?P x then cancelData now1' x else x) (jobDistributionAgents d)"
          and ags: "agents d' = agents d"
          by (simp_all add: d'_def)
        have settled: "\<forall>x \<in> set (jobDistributionAgents d').
            \<not> (jobDistributionId x = did \<and> workStatus x \<in> set [ASSIGNED, WORKING])"
          unfolding rows id by (rule cancellation_settles [OF assms wr])
        have sw: "\<And>n. timeoutSweep did n d' = d'"
          by (rule settled_sweep(1) [OF settled])
        have "handleDistributionTimeout did now1 now1' d =
            (if jobDistributionAgents d' \<noteq> jobDistributionAgents d
             then (Inl (Persistence TransactionExpired), d')
             else (Inr (), timeoutSweep did now1 d'))"
          unfolding rows using first False noM e Some by (simp add: d'_def)
        then have run: "handleDistributionTimeout did now1 now1' d =
            (if jobDistributionAgents d' \<noteq> jobDistributionAgents d
             then Inl (Persistence TransactionExpired) else Inr (), d')"
          by (simp add: sw)
        have rec': "jobDistributionRecord_findUnique did d' = Some (?win r)"
          using \<open>jobDistributionRecord_findUnique did d = Some r\<close>
            find_after_update [of dr_id did "jobDistributionRecords d" r ?win]
          by (simp add: jobDistributionRecord_findUnique_def d'_def)
        have c': "filter (\<lambda>x. workStatus x = COMPLETED) (assignedAgents did d') = ?C"
          by (rule retouched_store(1) [OF rows ags]) (auto simp: cancelData_def)
        have "(\<exists>x \<in> set (assignedAgents did d'). agent_findUnique (agentId x) d' = None) \<longleftrightarrow> ?M"
          by (rule retouched_store(2) [OF rows ags]) (auto simp: cancelData_def)
        then have m': "\<not> (\<exists>x \<in> set (assignedAgents did d'). agent_findUnique (agentId x) d' = None)"
          using noM by simp
        have j': "joinAgent d' = joinAgent d"
          by (rule joinAgent_agents [OF ags])
        have job': "job_findUnique (jobId r) d' = Some (?done job)"
          using Some find_after_update [of job_id "jobId r" "jobs d" job ?done]
          by (simp add: job_findUnique_def d'_def)
        have jobs': "map (\<lambda>j. if job_id j = jobId r then ?done j else j) (jobs d') = jobs d'"
          unfolding d'_def
          using map_update_twice [of "\<lambda>j. job_id j = jobId r" ?done "jobs d"] by simp
        have recs': "map (\<lambda>x. if dr_id x = did then ?win x else x) (jobDistributionRecords d') =
            jobDistributionRecords d'"
          unfolding d'_def
          using map_update_twice [of "\<lambda>x. dr_id x = did" ?win "jobDistributionRecords d"] by simp
        have rows': "map (\<lambda>x. if ?P x then cancelData now2' x else x) (jobDistributionAgents d') =
            jobDistributionAgents d'"
          by (rule settled_sweep(2) [OF settled])
        have keep: "d'\<lparr>jobDistributionRecords := jobDistributionRecords d', jobs := jobs d',
                       jobDistributionAgents := jobDistributionAgents d'\<rparr> = d'"
          by simp
        have "handleDistributionTimeout did now2 now2' d' = (Inr (), d')"
          using handleDistributionTimeout_cases [OF rec', of now2 now2'] False m' job' e rows'
          by (simp add: c' j' jobs' recs' keep sw)
        then show ?thesis
          unfolding run by simp
      qed
    qed
  qed
qed

text \<open>
  A run that does something: one assignment is COMPLETED, two are outstanding. In the first
  run the nested winner selection records the winner, completes the job and cancels the
  two, the outer transaction expires and its TIMEOUT writes are lost; the second run
  returns normally and changes nothing.
\<close>

theorem handleDistributionTimeout_idempotent_witness:
  "distinct (map assignmentKey (jobDistributionAgents c4_db)) \<and>
   fst (handleDistributionTimeout ''d1'' 20 21 c4_db) = Inl (Persistence TransactionExpired) \<and>
   map (\<lambda>x. (agentId x, workStatus x, completedAt x))
       (jobDistributionAgents (snd (handleDistributionTimeout ''d1'' 20 21 c4_db))) =
     [(''a1'', COMPLETED, Some 5), (''a2'', CANCELLED, Some 21), (''a3'', CANCELLED, Some 21)] \<and>
   map status (jobs (snd (handleDistributionTimeout ''d1'' 20 21 c4_db))) = [JOB_COMPLETED] \<and>
   map assignedAgentId (jobDistributionRecords (snd (handleDistributionTimeout ''d1'' 20 21 c4_db))) =
     [Some ''a1''] \<and>
   handleDistributionTimeout ''d1'' 30 31 (snd (handleDistributionTimeout ''d1'' 20 21 c4_db)) =
     (Inr (), snd (handleDistributionTimeout ''d1'' 20 21 c4_db))"
proof -
  have uniq: "distinct (map assignmentKey (jobDistributionAgents c4_db))"
    by (simp add: assignmentKey_def c4_db_def ex_db_def ex_row_def)
  have run: "handleDistributionTimeout ''d1'' 20 21 c4_db =
      (Inl (Persistence TransactionExpired),
       c4_db\<lparr> jobDistributionAgents :=
                 [ex_row ''a1'' COMPLETED (Some ''first'') (Some 5) None,
                  cancelData 21 (ex_row ''a2'' WORKING None None None),
                  cancelData 21 (ex_row ''a3'' ASSIGNED None None None)],
               jobDistributionRecords :=
                 [ex_record\<lparr>assignedAgentId := Some ''a1'', assignedAgentName := Some ''Ada''\<rparr>],
               jobs := [ex_job\<lparr>status := JOB_COMPLETED\<rparr>] \<rparr>)"
    by (simp add: handleDistributionTimeout_def transaction_def timeoutSweep_def
        jobDistributionAgent_updateMany_def jobDistributionRecord_findUnique_def
        selectBestAgentAndComplete_def getDistributionDetail_def assignedAgents_def
        joinAgent_def agent_findUnique_def toExecutionResult_def selectAgent_def
        jobDistributionRecord_update_def job_update_def job_findUnique_def
        truthyString_def truthyNumber_def cancelData_def timeoutData_def
        c4_db_def ex_db_def ex_row_def ex_agent_def ex_record_def ex_job_def)
  show ?thesis
    using uniq handleDistributionTimeout_idempotent [OF uniq, of "''d1''" 30 31 20 21]
    unfolding run
    by (simp add: cancelData_def ex_row_def ex_job_def ex_record_def prod_eq_iff)
qed

end
